theory Spec2Isabelle
  imports Main
begin

section \<open>Python values\<close>

text \<open>
  A Python \<open>str\<close> is a sequence of Unicode code points: \<open>len\<close> and slicing count code
  points, not bytes. It is modelled as a list of code-point numbers; \<open>ascii\<close> reads an
  ASCII literal of the source.
\<close>

type_synonym str = "nat list"

definition ascii :: "string \<Rightarrow> str" where
  "ascii s = map of_char s"

text \<open>
  What a call can raise, by the classes the handlers of \<open>deploy_model\<close> tell apart:
  \<open>botocore.exceptions.ClientError\<close>, any other subclass of \<open>Exception\<close>, and the
  \<open>BaseException\<close>s outside \<open>Exception\<close> (\<open>SystemExit\<close>, \<open>KeyboardInterrupt\<close>), which
  \<open>except Exception\<close> does not catch. The first two carry \<open>str(error)\<close>, the last the
  exit status the interpreter gives it when nothing catches it.
\<close>

datatype fault = ClientError str | OtherException str | SystemExiting int

fun is_Exception :: "fault \<Rightarrow> bool" where
  "is_Exception (ClientError m) = True"
| "is_Exception (OtherException m) = True"
| "is_Exception (SystemExiting c) = False"

text \<open>
  \<open>str.replace(old, new)\<close>: the occurrences of \<open>old\<close> are replaced from left to right
  without overlap; an empty \<open>old\<close> matches before every character and at the end.
\<close>

function str_replace :: "str \<Rightarrow> str \<Rightarrow> str \<Rightarrow> str" where
  "str_replace old new [] = (if old = [] then new else [])"
| "str_replace old new (c # cs) =
     (if old = [] then new @ c # str_replace old new cs
      else if take (length old) (c # cs) = old
        then new @ str_replace old new (drop (length old) (c # cs))
      else c # str_replace old new cs)"
  by pat_completeness auto
termination
  by (relation "measure (\<lambda>(old, new, s). length s)") auto

text \<open>\<open>os.getenv(key, default)\<close> over the process environment.\<close>

type_synonym environ = "str \<rightharpoonup> str"

definition os_getenv :: "environ \<Rightarrow> str \<Rightarrow> str \<Rightarrow> str" where
  "os_getenv env key dflt = (case env key of Some v \<Rightarrow> v | None \<Rightarrow> dflt)"

text \<open>\<open>os.path.join(a, b)\<close> of \<open>posixpath\<close>, for two components.\<close>

definition os_path_join :: "str \<Rightarrow> str \<Rightarrow> str" where
  "os_path_join a b =
     (if take 1 b = ascii ''/'' then b
      else if a = [] \<or> last a = of_char CHR ''/'' then a @ b
      else a @ ascii ''/'' @ b)"

text \<open>The values \<open>json.dump\<close> is given in this program: strings, lists and dicts.\<close>

datatype json = JString str | JArray "json list" | JObject "(str \<times> json) list"

text \<open>
  A file holds either some text or the document \<open>json.dump(obj, handle, indent=n)\<close>
  wrote into it, kept as the value and the indent handed to \<open>json.dump\<close>.
\<close>

datatype file_data = RawText str | JsonDump json nat

section \<open>Module constants (source lines 27-34)\<close>

definition NEMOTRON_MODEL_ID :: str where
  "NEMOTRON_MODEL_ID = ascii ''nvidia-nemotron-nano-8b-nim''"

definition EMBED_MODEL_ID :: str where
  "EMBED_MODEL_ID = ascii ''nvidia-llama3-2-nv-embedqa-1b-v2-nim''"

definition LLM_INSTANCE :: "environ \<Rightarrow> str" where
  "LLM_INSTANCE env = os_getenv env (ascii ''NIM_LLM_INSTANCE_TYPE'') (ascii ''ml.g5.2xlarge'')"

definition EMBED_INSTANCE :: "environ \<Rightarrow> str" where
  "EMBED_INSTANCE env = os_getenv env (ascii ''NIM_EMBED_INSTANCE_TYPE'') (ascii ''ml.g5.xlarge'')"

definition DEFAULT_EXECUTION_ROLE :: str where
  "DEFAULT_EXECUTION_ROLE = ascii ''arn:aws:iam::112571254920:role/voclabs''"

definition EXECUTION_ROLE :: "environ \<Rightarrow> str" where
  "EXECUTION_ROLE env = os_getenv env (ascii ''SAGEMAKER_EXECUTION_ROLE'') DEFAULT_EXECUTION_ROLE"

section \<open>EndpointInfo (source lines 37-50)\<close>

record EndpointInfo =
  model_id :: str
  model_version :: str
  endpoint_name :: str
  instance_type :: str
  region :: str

definition endpoint_url :: "EndpointInfo \<Rightarrow> str" where
  "endpoint_url self =
     ascii ''https://runtime.sagemaker.'' @ region self @ ascii ''.amazonaws.com/''
     @ ascii ''endpoints/'' @ endpoint_name self @ ascii ''/invocations''"

text \<open>
  \<open>endpoint.__dict__\<close> of the dataclass instance: its instance attributes, in the order
  the fields are declared. A property is not an instance attribute.
\<close>

definition dunder_dict :: "EndpointInfo \<Rightarrow> json" where
  "dunder_dict self = JObject
     [(ascii ''model_id'', JString (model_id self)),
      (ascii ''model_version'', JString (model_version self)),
      (ascii ''endpoint_name'', JString (endpoint_name self)),
      (ascii ''instance_type'', JString (instance_type self)),
      (ascii ''region'', JString (region self))]"

text \<open>The keys of a dict, in order; no keys for a value that is not a dict.\<close>

fun dict_keys :: "json \<Rightarrow> str list" where
  "dict_keys (JObject kvs) = map fst kvs"
| "dict_keys (JString s) = []"
| "dict_keys (JArray xs) = []"

section \<open>The external service boundary\<close>

record Session =
  boto_region_name :: str

text \<open>The keyword arguments of \<open>sagemaker.model.Model(...)\<close> at source lines 92-97.\<close>

record Model =
  image_uri :: str
  model_data :: str
  role :: str
  sagemaker_session :: Session

text \<open>
  The SDK and the platform behind it are a parameter: each call reads and changes a world
  state \<open>'w\<close> and either raises or returns. \<open>'p\<close> is what \<open>model.deploy\<close> returns.
  \<open>get_model_specs\<close> stands for the call and the read of \<open>specs.model_version\<close>.
\<close>

record ('w, 'p) services =
  Session_init :: "'w \<Rightarrow> (fault + Session) \<times> 'w"
  get_model_specs :: "str \<Rightarrow> str \<Rightarrow> 'w \<Rightarrow> (fault + str) \<times> 'w"
  model_uris_retrieve :: "str \<Rightarrow> str \<Rightarrow> str \<Rightarrow> str \<Rightarrow> 'w \<Rightarrow> (fault + str) \<times> 'w"
  image_uris_retrieve ::
    "str option \<Rightarrow> str \<Rightarrow> str \<Rightarrow> str \<Rightarrow> str \<Rightarrow> str \<Rightarrow> 'w \<Rightarrow> (fault + str) \<times> 'w"
  Model_init :: "Model \<Rightarrow> 'w \<Rightarrow> (fault + unit) \<times> 'w"
  Model_deploy :: "Model \<Rightarrow> nat \<Rightarrow> str \<Rightarrow> str \<Rightarrow> bool \<Rightarrow> 'w \<Rightarrow> (fault + 'p) \<times> 'w"
  delete_model :: "'p \<Rightarrow> 'w \<Rightarrow> (fault + unit) \<times> 'w"
  open_file :: "str \<Rightarrow> str \<Rightarrow> 'w \<Rightarrow> (fault + unit) \<times> 'w"

text \<open>The calls made across the boundary, with their arguments, as a log records them.\<close>

datatype 'p call =
    Call_Session
  | Call_get_model_specs str str
  | Call_model_uris_retrieve str str str str
  | Call_image_uris_retrieve "str option" str str str str str
  | Call_Model Model
  | Call_deploy Model nat str str bool
  | Call_delete_model 'p
  | Call_open str str

text \<open>The calls that belong to deploying a model (the body of \<open>deploy_model\<close>).\<close>

fun is_deployment_call :: "'p call \<Rightarrow> bool" where
  "is_deployment_call Call_Session = False"
| "is_deployment_call (Call_get_model_specs m r) = False"
| "is_deployment_call (Call_model_uris_retrieve m v sc r) = True"
| "is_deployment_call (Call_image_uris_retrieve f m v isc msc r) = True"
| "is_deployment_call (Call_Model mdl) = True"
| "is_deployment_call (Call_deploy mdl n it nm wt) = True"
| "is_deployment_call (Call_delete_model p) = True"
| "is_deployment_call (Call_open path mode) = False"

text \<open>The execution role a call hands to the platform, for the calls that carry one.\<close>

fun role_of_call :: "'p call \<Rightarrow> str option" where
  "role_of_call (Call_Model mdl) = Some (role mdl)"
| "role_of_call (Call_deploy mdl n it nm wt) = Some (role mdl)"
| "role_of_call c = None"

text \<open>The instance type an endpoint-creation call asks for.\<close>

fun instance_type_of_call :: "'p call \<Rightarrow> str option" where
  "instance_type_of_call (Call_deploy mdl n it nm wt) = Some it"
| "instance_type_of_call c = None"

text \<open>The endpoint name an endpoint-creation call asks for.\<close>

fun endpoint_name_of_call :: "'p call \<Rightarrow> str option" where
  "endpoint_name_of_call (Call_deploy mdl n it nm wt) = Some nm"
| "endpoint_name_of_call c = None"

record process =
  os_environ :: environ
  os_getcwd :: str

text \<open>
  The state a run threads: the world behind the services, the log of calls made so far
  (oldest first), the arguments of the \<open>print\<close> calls so far, and the files written.
\<close>

record ('w, 'p) state =
  world :: 'w
  calls :: "'p call list"
  stdout :: "str list"
  files :: "str \<rightharpoonup> file_data"

section \<open>Control flow: return, raise, sequencing, try/except\<close>

type_synonym ('a, 's) py = "'s \<Rightarrow> (fault + 'a) \<times> 's"

definition py_return :: "'a \<Rightarrow> ('a, 's) py" where
  "py_return x = (\<lambda>s. (Inr x, s))"

definition py_raise :: "fault \<Rightarrow> ('a, 's) py" where
  "py_raise e = (\<lambda>s. (Inl e, s))"

definition py_bind :: "('a, 's) py \<Rightarrow> ('a \<Rightarrow> ('b, 's) py) \<Rightarrow> ('b, 's) py" where
  "py_bind m f = (\<lambda>s. case m s of (Inl e, s') \<Rightarrow> (Inl e, s') | (Inr x, s') \<Rightarrow> f x s')"

definition py_try :: "('a, 's) py \<Rightarrow> (fault \<Rightarrow> ('a, 's) py) \<Rightarrow> ('a, 's) py" where
  "py_try m h = (\<lambda>s. case m s of (Inl e, s') \<Rightarrow> h e s' | (Inr x, s') \<Rightarrow> (Inr x, s'))"

definition print :: "str \<Rightarrow> (unit, ('w, 'p) state) py" where
  "print text = (\<lambda>s. (Inr (), s\<lparr>stdout := stdout s @ [text]\<rparr>))"

text \<open>A call across the boundary: logged, then answered by the world.\<close>

definition extern :: "'p call \<Rightarrow> ('w \<Rightarrow> (fault + 'a) \<times> 'w) \<Rightarrow> ('a, ('w, 'p) state) py" where
  "extern c op = (\<lambda>s. case op (world s) of
     (r, w') \<Rightarrow> (r, s\<lparr>world := w', calls := calls s @ [c]\<rparr>))"

text \<open>
  \<open>with open(path, "w", ...) as handle: json.dump(obj, handle, indent=n)\<close>: when the
  open succeeds the file at \<open>path\<close> holds the dump, whatever it held before.
\<close>

definition open_w_json_dump ::
  "('w, 'p) services \<Rightarrow> str \<Rightarrow> json \<Rightarrow> nat \<Rightarrow> (unit, ('w, 'p) state) py" where
  "open_w_json_dump sv path obj indent =
     py_bind (extern (Call_open path (ascii ''w'')) (open_file sv path (ascii ''w'')))
       (\<lambda>_ s. (Inr (), s\<lparr>files := (files s)(path \<mapsto> JsonDump obj indent)\<rparr>))"

section \<open>resolve_model_version (source lines 53-56)\<close>

definition resolve_model_version ::
  "('w, 'p) services \<Rightarrow> str \<Rightarrow> str \<Rightarrow> (str, ('w, 'p) state) py" where
  "resolve_model_version sv mid rgn =
     extern (Call_get_model_specs mid rgn) (get_model_specs sv mid rgn)"

section \<open>deploy_model (source lines 59-122)\<close>

text \<open>Glyphs of the source's messages, as code points.\<close>

definition glyph_package :: str where "glyph_package = [0x1F4E6]"
definition glyph_check :: str where "glyph_check = [0x2705]"
definition glyph_cross :: str where "glyph_cross = [0x274C]"
definition glyph_search :: str where "glyph_search = [0x1F50D]"
definition glyph_arrow :: str where "glyph_arrow = [0x2192]"
definition newline :: str where "newline = [10]"

text \<open>Source lines 68-69: the endpoint name, from the prefix, the model id and the version.\<close>

definition make_endpoint_name :: "str \<Rightarrow> str \<Rightarrow> str \<Rightarrow> str" where
  "make_endpoint_name pfx mid ver =
     (let endpoint_name = str_replace (ascii ''_'') (ascii ''-'')
                            (pfx @ ascii ''-'' @ mid @ ascii ''-'' @ ver)
      in take 63 endpoint_name)"

text \<open>
  Source lines 75-113, the body of the \<open>try\<close>. The parameters are \<open>sess\<close>, \<open>model_id\<close>,
  \<open>model_version\<close>, \<open>instance_type\<close> and the endpoint name computed before the \<open>try\<close>.
\<close>

definition deploy_try ::
  "('w, 'p) services \<Rightarrow> environ \<Rightarrow> Session \<Rightarrow> str \<Rightarrow> str \<Rightarrow> str \<Rightarrow> str
     \<Rightarrow> (EndpointInfo option, ('w, 'p) state) py" where
  "deploy_try sv env sess mid ver itype ename =
     (let rgn = boto_region_name sess; inference = ascii ''inference'' in
      py_bind (extern (Call_model_uris_retrieve mid ver inference rgn)
                 (model_uris_retrieve sv mid ver inference rgn)) (\<lambda>model_uri.
      py_bind (extern (Call_image_uris_retrieve None mid ver inference inference rgn)
                 (image_uris_retrieve sv None mid ver inference inference rgn)) (\<lambda>img_uri.
      let model = \<lparr>image_uri = img_uri, model_data = model_uri,
                   role = EXECUTION_ROLE env, sagemaker_session = sess\<rparr> in
      py_bind (extern (Call_Model model) (Model_init sv model)) (\<lambda>_.
      py_bind (extern (Call_deploy model 1 itype ename True)
                 (Model_deploy sv model 1 itype ename True)) (\<lambda>predictor.
      py_bind (print (glyph_check @ ascii '' Deployed endpoint: '' @ ename)) (\<lambda>_.
      py_bind (extern (Call_delete_model predictor) (delete_model sv predictor)) (\<lambda>_.
      py_return (Some \<lparr>model_id = mid, model_version = ver, endpoint_name = ename,
                        instance_type = itype, region = rgn\<rparr>))))))))"

text \<open>
  Source lines 115-120: the two handlers. Each prints and falls through to the
  \<open>return None\<close> of line 122; what neither matches leaves the function as raised.
\<close>

definition deploy_except :: "str \<Rightarrow> fault \<Rightarrow> (EndpointInfo option, ('w, 'p) state) py" where
  "deploy_except mid e =
     (case e of
        ClientError msg \<Rightarrow>
          py_bind (print (glyph_cross @ ascii '' AWS error deploying '' @ mid @ ascii '': '' @ msg))
            (\<lambda>_. py_return None)
      | OtherException msg \<Rightarrow>
          py_bind (print (glyph_cross @ ascii '' Unexpected error deploying '' @ mid
                          @ ascii '': '' @ msg))
            (\<lambda>_. py_return None)
      | SystemExiting c \<Rightarrow> py_raise e)"

definition deploy_model ::
  "('w, 'p) services \<Rightarrow> environ \<Rightarrow> Session \<Rightarrow> str \<Rightarrow> str \<Rightarrow> str \<Rightarrow> str
     \<Rightarrow> (EndpointInfo option, ('w, 'p) state) py" where
  "deploy_model sv env sess mid ver itype pfx =
     (let ename = make_endpoint_name pfx mid ver in
      py_bind (print (newline @ glyph_package @ ascii '' Deploying '' @ mid @ ascii '':'' @ ver))
        (\<lambda>_.
      py_bind (print (ascii ''   Endpoint: '' @ ename)) (\<lambda>_.
      py_bind (print (ascii ''   Instance type: '' @ itype)) (\<lambda>_.
      py_try (deploy_try sv env sess mid ver itype ename) (deploy_except mid)))))"

section \<open>main (source lines 125-179)\<close>

text \<open>Source lines 126-142: the session, the banner and the two version lookups.\<close>

definition resolve_versions ::
  "('w, 'p) services \<Rightarrow> environ \<Rightarrow> (Session \<times> str \<times> str, ('w, 'p) state) py" where
  "resolve_versions sv env =
     py_bind (extern Call_Session (Session_init sv)) (\<lambda>session.
     let rgn = boto_region_name session in
     py_bind (print (replicate 72 (of_char CHR ''=''))) (\<lambda>_.
     py_bind (print (ascii ''NVIDIA NIM Deployment for NVIDIA x AWS Hackathon'')) (\<lambda>_.
     py_bind (print (replicate 72 (of_char CHR ''=''))) (\<lambda>_.
     py_bind (print (ascii ''Region: '' @ rgn)) (\<lambda>_.
     py_bind (if EXECUTION_ROLE env \<noteq> []
              then print (ascii ''Execution role: '' @ EXECUTION_ROLE env)
              else print (ascii ''Execution role: using environment defaults (SageMaker managed)''))
       (\<lambda>_.
     py_bind (print (newline @ glyph_search
                     @ ascii '' Resolving latest model versions from JumpStart...'')) (\<lambda>_.
     py_bind (resolve_model_version sv NEMOTRON_MODEL_ID rgn) (\<lambda>llm_version.
     py_bind (resolve_model_version sv EMBED_MODEL_ID rgn) (\<lambda>embed_version.
     py_bind (print (ascii ''   '' @ NEMOTRON_MODEL_ID @ ascii '' '' @ glyph_arrow @ ascii '' v''
                     @ llm_version)) (\<lambda>_.
     py_bind (print (ascii ''   '' @ EMBED_MODEL_ID @ ascii '' '' @ glyph_arrow @ ascii '' v''
                     @ embed_version)) (\<lambda>_.
     py_return (session, llm_version, embed_version))))))))))))"

text \<open>
  Source lines 144-164: the two deployments, the reasoning model first. A dataclass
  instance is truthy, so \<open>if llm_endpoint:\<close> tests for \<open>None\<close>.
\<close>

definition deploy_each ::
  "('w, 'p) services \<Rightarrow> environ \<Rightarrow> Session \<Rightarrow> str \<Rightarrow> str
     \<Rightarrow> (EndpointInfo list, ('w, 'p) state) py" where
  "deploy_each sv env session llm_version embed_version =
     (let endpoints = [] in
      py_bind (deploy_model sv env session NEMOTRON_MODEL_ID llm_version (LLM_INSTANCE env)
                 (ascii ''mindbridge-llm'')) (\<lambda>llm_endpoint.
      let endpoints = (case llm_endpoint of Some e \<Rightarrow> endpoints @ [e] | None \<Rightarrow> endpoints) in
      py_bind (deploy_model sv env session EMBED_MODEL_ID embed_version (EMBED_INSTANCE env)
                 (ascii ''mindbridge-embed'')) (\<lambda>embed_endpoint.
      let endpoints = (case embed_endpoint of Some e \<Rightarrow> endpoints @ [e] | None \<Rightarrow> endpoints) in
      py_return endpoints)))"

text \<open>Source lines 175-179: one line per endpoint.\<close>

fun print_endpoints :: "EndpointInfo list \<Rightarrow> (unit, ('w, 'p) state) py" where
  "print_endpoints [] = py_return ()"
| "print_endpoints (endpoint # rest) =
     py_bind (print (ascii '' - '' @ model_id endpoint @ ascii ''@'' @ model_version endpoint
                     @ ascii '' '' @ glyph_arrow @ ascii '' '' @ endpoint_name endpoint
                     @ ascii '' ('' @ endpoint_url endpoint @ ascii '')''))
       (\<lambda>_. print_endpoints rest)"

text \<open>Source lines 166-179: the early return on an empty list, else the summary file.\<close>

definition summarize ::
  "('w, 'p) services \<Rightarrow> process \<Rightarrow> EndpointInfo list \<Rightarrow> (unit, ('w, 'p) state) py" where
  "summarize sv proc endpoints =
     (if endpoints = []
      then py_bind (print (newline @ glyph_cross
                           @ ascii '' Deployment failed. Check the errors above.''))
             (\<lambda>_. py_return ())
      else
        let summary_path = os_path_join (os_getcwd proc) (ascii ''nim_endpoints.json'') in
        py_bind (open_w_json_dump sv summary_path (JArray (map dunder_dict endpoints)) 2) (\<lambda>_.
        py_bind (print (newline @ glyph_check
                        @ ascii '' Deployment summary written to nim_endpoints.json'')) (\<lambda>_.
        print_endpoints endpoints)))"

definition main :: "('w, 'p) services \<Rightarrow> process \<Rightarrow> (unit, ('w, 'p) state) py" where
  "main sv proc =
     py_bind (resolve_versions sv (os_environ proc)) (\<lambda>(session, llm_version, embed_version).
     py_bind (deploy_each sv (os_environ proc) session llm_version embed_version) (\<lambda>endpoints.
     summarize sv proc endpoints))"

text \<open>
  Source lines 182-183: the script calls \<open>main()\<close> and ends. The interpreter's exit status
  is 0 when \<open>main\<close> returns, 1 after an uncaught \<open>Exception\<close> (it prints the traceback),
  and the status carried by a \<open>SystemExit\<close> or an interrupt.
\<close>

definition exit_status :: "fault + unit \<Rightarrow> int" where
  "exit_status r =
     (case r of Inr _ \<Rightarrow> 0 | Inl (SystemExiting c) \<Rightarrow> c | Inl _ \<Rightarrow> 1)"

definition run_script :: "('w, 'p) services \<Rightarrow> process \<Rightarrow> ('w, 'p) state \<Rightarrow> int \<times> ('w, 'p) state" where
  "run_script sv proc s = (case main sv proc s of (r, s') \<Rightarrow> (exit_status r, s'))"

section \<open>Notions used to state the properties\<close>

text \<open>
  The two calls of \<open>deploy_model\<close> that \<open>main\<close> makes (source lines 146-152 and 156-162),
  and the path of the summary file (source line 170).
\<close>

abbreviation deploy_llm ::
  "('w, 'p) services \<Rightarrow> environ \<Rightarrow> Session \<Rightarrow> str \<Rightarrow> (EndpointInfo option, ('w, 'p) state) py" where
  "deploy_llm sv env session llm_version \<equiv>
     deploy_model sv env session NEMOTRON_MODEL_ID llm_version (LLM_INSTANCE env)
       (ascii ''mindbridge-llm'')"

abbreviation deploy_embed ::
  "('w, 'p) services \<Rightarrow> environ \<Rightarrow> Session \<Rightarrow> str \<Rightarrow> (EndpointInfo option, ('w, 'p) state) py" where
  "deploy_embed sv env session embed_version \<equiv>
     deploy_model sv env session EMBED_MODEL_ID embed_version (EMBED_INSTANCE env)
       (ascii ''mindbridge-embed'')"

abbreviation summary_path :: "process \<Rightarrow> str" where
  "summary_path proc \<equiv> os_path_join (os_getcwd proc) (ascii ''nim_endpoints.json'')"


text \<open>The calls a computation makes when it is run from a state: what it appends to the log.\<close>

definition calls_made :: "('a, ('w, 'p) state) py \<Rightarrow> ('w, 'p) state \<Rightarrow> 'p call list" where
  "calls_made m s = drop (length (calls s)) (calls (snd (m s)))"

text \<open>
  A computation only appends to the log, and every call it appends satisfies \<open>Q\<close>.
\<close>

definition emits :: "('p call \<Rightarrow> bool) \<Rightarrow> ('a, ('w, 'p) state) py \<Rightarrow> bool" where
  "emits Q m = (\<forall>s. \<exists>cs. calls (snd (m s)) = calls s @ cs \<and> list_all Q cs)"

text \<open>What a computation prints when it is run from a state: what it appends to the output.\<close>

definition printed :: "('a, ('w, 'p) state) py \<Rightarrow> ('w, 'p) state \<Rightarrow> str list" where
  "printed m s = drop (length (stdout s)) (stdout (snd (m s)))"

text \<open>A computation leaves every file as it was.\<close>

definition keeps_files :: "('a, ('w, 'p) state) py \<Rightarrow> bool" where
  "keeps_files m = (\<forall>s. files (snd (m s)) = files s)"

text \<open>The calls that open a file.\<close>

fun is_open_call :: "'p call \<Rightarrow> bool" where
  "is_open_call (Call_open path mode) = True"
| "is_open_call c = False"

section \<open>Stub services for concrete runs\<close>

text \<open>
  A stateless stand-in for the platform: a call raises what \<open>flt\<close> says for it, and
  otherwise returns a fixed answer. The predictor is the endpoint's name.
\<close>

definition answer :: "('c \<Rightarrow> fault option) \<Rightarrow> 'c \<Rightarrow> 'a \<Rightarrow> unit \<Rightarrow> (fault + 'a) \<times> unit" where
  "answer flt c x = (\<lambda>w. (case flt c of Some e \<Rightarrow> Inl e | None \<Rightarrow> Inr x, w))"

definition stub_services :: "(str call \<Rightarrow> fault option) \<Rightarrow> (unit, str) services" where
  "stub_services flt =
     \<lparr>Session_init = answer flt Call_Session \<lparr>boto_region_name = ascii ''us-east-1''\<rparr>,
      get_model_specs = (\<lambda>m r. answer flt (Call_get_model_specs m r) (ascii ''1.0.0'')),
      model_uris_retrieve = (\<lambda>m v sc r.
        answer flt (Call_model_uris_retrieve m v sc r) (ascii ''s3://models/'' @ m)),
      image_uris_retrieve = (\<lambda>f m v isc msc r.
        answer flt (Call_image_uris_retrieve f m v isc msc r) (ascii ''registry/'' @ m)),
      Model_init = (\<lambda>mdl. answer flt (Call_Model mdl) ()),
      Model_deploy = (\<lambda>mdl n it nm wt. answer flt (Call_deploy mdl n it nm wt) nm),
      delete_model = (\<lambda>p. answer flt (Call_delete_model p) ()),
      open_file = (\<lambda>path mode. answer flt (Call_open path mode) ())\<rparr>"

definition no_fault :: "str call \<Rightarrow> fault option" where
  "no_fault c = None"

text \<open>Endpoint creation raises \<open>e\<close>, for every model.\<close>

fun raise_at_deploy :: "fault \<Rightarrow> str call \<Rightarrow> fault option" where
  "raise_at_deploy e (Call_deploy mdl n it nm wt) = Some e"
| "raise_at_deploy e c = None"

text \<open>The artifact lookup raises \<open>e\<close> for the model \<open>mid\<close> only.\<close>

fun raise_at_model_uri :: "str \<Rightarrow> fault \<Rightarrow> str call \<Rightarrow> fault option" where
  "raise_at_model_uri mid e (Call_model_uris_retrieve m v sc r) = (if m = mid then Some e else None)"
| "raise_at_model_uri mid e c = None"

text \<open>The release of the local model handle raises \<open>e\<close>.\<close>

fun raise_at_delete_model :: "fault \<Rightarrow> str call \<Rightarrow> fault option" where
  "raise_at_delete_model e (Call_delete_model p) = Some e"
| "raise_at_delete_model e c = None"

text \<open>The release of the local model handle raises \<open>e\<close> for the predictor \<open>p\<close> only.\<close>

fun raise_at_delete_model_of :: "str \<Rightarrow> fault \<Rightarrow> str call \<Rightarrow> fault option" where
  "raise_at_delete_model_of p e (Call_delete_model q) = (if q = p then Some e else None)"
| "raise_at_delete_model_of p e c = None"

text \<open>The version lookup raises \<open>e\<close> for the model \<open>mid\<close> only.\<close>

fun raise_at_get_model_specs :: "str \<Rightarrow> fault \<Rightarrow> str call \<Rightarrow> fault option" where
  "raise_at_get_model_specs mid e (Call_get_model_specs m r) = (if m = mid then Some e else None)"
| "raise_at_get_model_specs mid e c = None"

definition stub_process :: process where
  "stub_process = \<lparr>os_environ = Map.empty, os_getcwd = ascii ''/home/operator''\<rparr>"

definition fresh :: "(str \<rightharpoonup> file_data) \<Rightarrow> (unit, str) state" where
  "fresh fs = \<lparr>world = (), calls = [], stdout = [], files = fs\<rparr>"

section \<open>Endpoint names and URLs\<close>

lemma str_replace_char:
  "str_replace [a] [b] s = map (\<lambda>c. if c = a then b else c) s"
  by (induction s) simp_all

lemma make_endpoint_name_map:
  "make_endpoint_name pfx mid ver =
     take 63 (map (\<lambda>c. if c = of_char CHR ''_'' then of_char CHR ''-'' else c)
                (pfx @ ascii ''-'' @ mid @ ascii ''-'' @ ver))"
proof -
  have c: "of_char CHR ''_'' = (95::nat)" "of_char CHR ''-'' = (45::nat)"
    by simp_all
  show ?thesis
    unfolding c by (simp add: make_endpoint_name_def ascii_def str_replace_char)
qed

text \<open>
  C4. For every prefix, model id and version, the endpoint name of source lines 68-69 is
  the text \<open>prefix-modelId-version\<close> with every underscore replaced by a hyphen, cut to its
  first 63 characters; so it has at most 63 characters and no underscore.
\<close>

theorem endpoint_name_normalised:
  "make_endpoint_name pfx mid ver =
     take 63 (map (\<lambda>c. if c = of_char CHR ''_'' then of_char CHR ''-'' else c)
                (pfx @ ascii ''-'' @ mid @ ascii ''-'' @ ver))
   \<and> length (make_endpoint_name pfx mid ver) \<le> 63
   \<and> of_char CHR ''_'' \<notin> set (make_endpoint_name pfx mid ver)"
proof -
  let ?f = "\<lambda>c::nat. if c = of_char CHR ''_'' then of_char CHR ''-'' else c"
  let ?s = "pfx @ ascii ''-'' @ mid @ ascii ''-'' @ ver"
  have eq: "make_endpoint_name pfx mid ver = take 63 (map ?f ?s)"
    by (rule make_endpoint_name_map)
  have "of_char CHR ''_'' \<notin> set (map ?f ?s)"
    by auto
  then have "of_char CHR ''_'' \<notin> set (take 63 (map ?f ?s))"
    using set_take_subset by fastforce
  with eq show ?thesis by simp
qed

text \<open>
  C8. The endpoint URL is computed from the record and is not one of its stored
  attributes: it has the shape
  \<open>https://runtime.<platform>.<region>.<domain>/endpoints/<name>/invocations\<close> with platform
  \<open>sagemaker\<close> and domain \<open>amazonaws.com\<close>, it is the same for two records with the same
  region and endpoint name whatever their other attributes, and \<open>endpoint_url\<close> is not a
  key of the record's \<open>__dict__\<close>.
\<close>

theorem endpoint_url_derived:
  "endpoint_url e =
     ascii ''https://runtime.'' @ ascii ''sagemaker'' @ ascii ''.'' @ region e @ ascii ''.''
     @ ascii ''amazonaws.com'' @ ascii ''/endpoints/'' @ endpoint_name e @ ascii ''/invocations''
   \<and> endpoint_url (e\<lparr>model_id := m, model_version := v, instance_type := t\<rparr>) = endpoint_url e
   \<and> ascii ''endpoint_url'' \<notin> set (dict_keys (dunder_dict e))"
  by (simp add: endpoint_url_def dunder_dict_def ascii_def)

section \<open>Running the control flow\<close>

lemma py_bind_apply:
  "py_bind m f s = (case m s of (Inl e, s') \<Rightarrow> (Inl e, s') | (Inr x, s') \<Rightarrow> f x s')"
  by (simp add: py_bind_def)

lemma py_try_apply:
  "py_try m h s = (case m s of (Inl e, s') \<Rightarrow> h e s' | (Inr x, s') \<Rightarrow> (Inr x, s'))"
  by (simp add: py_try_def)

lemma py_return_apply: "py_return x s = (Inr x, s)"
  by (simp add: py_return_def)

lemma py_raise_apply: "py_raise e s = (Inl e, s)"
  by (simp add: py_raise_def)

lemma print_apply: "print t s = (Inr (), s\<lparr>stdout := stdout s @ [t]\<rparr>)"
  by (simp add: print_def)

lemma extern_apply:
  "extern c op s = (case op (world s) of (r, w') \<Rightarrow> (r, s\<lparr>world := w', calls := calls s @ [c]\<rparr>))"
  by (simp add: extern_def)

lemmas run = py_bind_apply py_try_apply py_return_apply py_raise_apply print_apply extern_apply

lemma py_bind_Inr: "m s = (Inr x, s') \<Longrightarrow> py_bind m f s = f x s'"
  by (simp add: py_bind_apply)

lemma py_bind_Inl: "m s = (Inl e, s') \<Longrightarrow> py_bind m f s = (Inl e, s')"
  by (simp add: py_bind_apply)

lemma pair_fst_snd: "fst p = a \<Longrightarrow> p = (a, snd p)"
  by (cases p) simp

subsection \<open>What a computation appends to the log\<close>

lemma emitsI:
  "(\<And>s. \<exists>cs. calls (snd (m s)) = calls s @ cs \<and> list_all Q cs) \<Longrightarrow> emits Q m"
  by (simp add: emits_def)

lemma emitsD: "emits Q m \<Longrightarrow> \<exists>cs. calls (snd (m s)) = calls s @ cs \<and> list_all Q cs"
  by (simp add: emits_def)

lemma emits_calls_made: "emits Q m \<Longrightarrow> list_all Q (calls_made m s)"
  by (auto simp: calls_made_def dest: emitsD [of Q m s])

lemma emits_weaken: "emits P m \<Longrightarrow> (\<And>c. P c \<Longrightarrow> Q c) \<Longrightarrow> emits Q m"
  unfolding emits_def list_all_iff by blast

lemma emits_return [intro!]: "emits Q (py_return x)"
  by (simp add: emits_def py_return_apply)

lemma emits_raise [intro!]: "emits Q (py_raise e)"
  by (simp add: emits_def py_raise_apply)

lemma emits_print [intro!]: "emits Q (print t)"
  by (simp add: emits_def print_apply)

lemma emits_extern [intro!]: "Q c \<Longrightarrow> emits Q (extern c op)"
  by (simp add: emits_def extern_apply split: prod.splits)

lemma emits_bind [intro!]:
  assumes "emits Q m" and "\<And>x. emits Q (f x)"
  shows "emits Q (py_bind m f)"
proof (rule emitsI)
  fix s
  obtain r s1 where ms: "m s = (r, s1)" by (cases "m s")
  from emitsD [OF assms(1), of s] ms obtain cs where
    cs: "calls s1 = calls s @ cs" "list_all Q cs" by auto
  show "\<exists>cs. calls (snd (py_bind m f s)) = calls s @ cs \<and> list_all Q cs"
  proof (cases r)
    case (Inl e)
    with ms cs show ?thesis by (simp add: py_bind_apply)
  next
    case (Inr x)
    from emitsD [OF assms(2), of x s1] obtain ds where
      ds: "calls (snd (f x s1)) = calls s1 @ ds" "list_all Q ds" by auto
    with ms cs Inr show ?thesis by (simp add: py_bind_apply)
  qed
qed

lemma emits_try [intro!]:
  assumes "emits Q m" and "\<And>e. emits Q (h e)"
  shows "emits Q (py_try m h)"
proof (rule emitsI)
  fix s
  obtain r s1 where ms: "m s = (r, s1)" by (cases "m s")
  from emitsD [OF assms(1), of s] ms obtain cs where
    cs: "calls s1 = calls s @ cs" "list_all Q cs" by auto
  show "\<exists>cs. calls (snd (py_try m h s)) = calls s @ cs \<and> list_all Q cs"
  proof (cases r)
    case (Inr x)
    with ms cs show ?thesis by (simp add: py_try_apply)
  next
    case (Inl e)
    from emitsD [OF assms(2), of e s1] obtain ds where
      ds: "calls (snd (h e s1)) = calls s1 @ ds" "list_all Q ds" by auto
    with ms cs Inl show ?thesis by (simp add: py_try_apply)
  qed
qed

subsection \<open>What a computation leaves in the files\<close>

lemma keeps_filesD: "keeps_files m \<Longrightarrow> files (snd (m s)) = files s"
  by (simp add: keeps_files_def)

lemma keeps_return [intro!]: "keeps_files (py_return x)"
  by (simp add: keeps_files_def py_return_apply)

lemma keeps_raise [intro!]: "keeps_files (py_raise e)"
  by (simp add: keeps_files_def py_raise_apply)

lemma keeps_print [intro!]: "keeps_files (print t)"
  by (simp add: keeps_files_def print_apply)

lemma keeps_extern [intro!]: "keeps_files (extern c op)"
  by (simp add: keeps_files_def extern_apply split: prod.splits)

lemma keeps_bind [intro!]:
  assumes "keeps_files m" and "\<And>x. keeps_files (f x)"
  shows "keeps_files (py_bind m f)"
  unfolding keeps_files_def
proof
  fix s
  obtain r s1 where ms: "m s = (r, s1)" by (cases "m s")
  with keeps_filesD [OF assms(1), of s] have "files s1 = files s" by simp
  with ms keeps_filesD [OF assms(2), of _ s1]
  show "files (snd (py_bind m f s)) = files s"
    by (cases r) (simp_all add: py_bind_apply)
qed

lemma keeps_try [intro!]:
  assumes "keeps_files m" and "\<And>e. keeps_files (h e)"
  shows "keeps_files (py_try m h)"
  unfolding keeps_files_def
proof
  fix s
  obtain r s1 where ms: "m s = (r, s1)" by (cases "m s")
  with keeps_filesD [OF assms(1), of s] have "files s1 = files s" by simp
  with ms keeps_filesD [OF assms(2), of _ s1]
  show "files (snd (py_try m h s)) = files s"
    by (cases r) (simp_all add: py_try_apply)
qed

section \<open>deploy_model\<close>

lemma emits_deploy_except: "emits Q (deploy_except mid e)"
  by (cases e) (auto simp: deploy_except_def)

lemma keeps_deploy_except: "keeps_files (deploy_except mid e)"
  by (cases e) (auto simp: deploy_except_def)

lemma deploy_except_Exception:
  "is_Exception e \<Longrightarrow> fst (deploy_except mid e s) = Inr None"
  by (cases e) (simp_all add: deploy_except_def run)

lemma deploy_except_not_Some: "fst (deploy_except mid e s) \<noteq> Inr (Some x)"
  by (cases e) (simp_all add: deploy_except_def run)

lemma deploy_try_result:
  "fst (deploy_try sv env sess mid ver it nm s) = Inr r \<Longrightarrow>
   r = Some \<lparr>model_id = mid, model_version = ver, endpoint_name = nm,
             instance_type = it, region = boto_region_name sess\<rparr>"
  by (auto simp: deploy_try_def Let_def run split: prod.splits sum.splits)

lemma deploy_model_unfold:
  "deploy_model sv env sess mid ver it pfx s =
     py_try (deploy_try sv env sess mid ver it (make_endpoint_name pfx mid ver))
       (deploy_except mid)
       (s\<lparr>stdout := stdout s @
           [newline @ glyph_package @ ascii '' Deploying '' @ mid @ ascii '':'' @ ver,
            ascii ''   Endpoint: '' @ make_endpoint_name pfx mid ver,
            ascii ''   Instance type: '' @ it]\<rparr>)"
  by (simp add: deploy_model_def Let_def py_bind_apply print_apply)

lemma deploy_model_result:
  assumes "fst (deploy_model sv env sess mid ver it pfx s) = Inr (Some x)"
  shows "x = \<lparr>model_id = mid, model_version = ver,
              endpoint_name = make_endpoint_name pfx mid ver,
              instance_type = it, region = boto_region_name sess\<rparr>"
proof -
  let ?s = "s\<lparr>stdout := stdout s @
           [newline @ glyph_package @ ascii '' Deploying '' @ mid @ ascii '':'' @ ver,
            ascii ''   Endpoint: '' @ make_endpoint_name pfx mid ver,
            ascii ''   Instance type: '' @ it]\<rparr>"
  let ?t = "deploy_try sv env sess mid ver it (make_endpoint_name pfx mid ver)"
  obtain r s1 where t: "?t ?s = (r, s1)" by (cases "?t ?s")
  show ?thesis
  proof (cases r)
    case (Inl e)
    with t assms deploy_except_not_Some [of mid e s1 x] show ?thesis
      by (simp add: deploy_model_unfold py_try_apply)
  next
    case (Inr y)
    with t assms have "fst (?t ?s) = Inr (Some x)"
      by (simp add: deploy_model_unfold py_try_apply)
    from deploy_try_result [OF this] show ?thesis by simp
  qed
qed

lemma deploy_model_caught:
  assumes "fst (deploy_try sv env sess mid ver it (make_endpoint_name pfx mid ver)
             (s\<lparr>stdout := stdout s @
               [newline @ glyph_package @ ascii '' Deploying '' @ mid @ ascii '':'' @ ver,
                ascii ''   Endpoint: '' @ make_endpoint_name pfx mid ver,
                ascii ''   Instance type: '' @ it]\<rparr>)) = Inl e"
    and "is_Exception e"
  shows "fst (deploy_model sv env sess mid ver it pfx s) = Inr None"
  using assms
  by (auto simp: deploy_model_unfold py_try_apply deploy_except_Exception
           split: prod.splits sum.splits)

text \<open>
  C1. Whatever the inputs, when one of the four service calls of a deployment (the artifact
  lookup, the image lookup, the construction of the model, the creation of the endpoint)
  raises an exception, that is a \<open>ClientError\<close> or any other \<open>Exception\<close>, the calls before it
  having returned, \<open>deploy_model\<close> does not raise: it returns \<open>None\<close>.
\<close>

theorem deploy_model_catches:
  assumes exc: "is_Exception e"
    and raised:
      "model_uris_retrieve sv mid ver (ascii ''inference'') (boto_region_name sess) (world s)
         = (Inl e, w1)
       \<or> (\<exists>model_uri. model_uris_retrieve sv mid ver (ascii ''inference'')
                         (boto_region_name sess) (world s) = (Inr model_uri, w1)
           \<and> (image_uris_retrieve sv None mid ver (ascii ''inference'') (ascii ''inference'')
                (boto_region_name sess) w1 = (Inl e, w2)
              \<or> (\<exists>img_uri. image_uris_retrieve sv None mid ver (ascii ''inference'')
                              (ascii ''inference'') (boto_region_name sess) w1 = (Inr img_uri, w2)
                  \<and> (Model_init sv \<lparr>image_uri = img_uri, model_data = model_uri,
                                     role = EXECUTION_ROLE env, sagemaker_session = sess\<rparr> w2
                       = (Inl e, w3)
                     \<or> (Model_init sv \<lparr>image_uri = img_uri, model_data = model_uri,
                                        role = EXECUTION_ROLE env, sagemaker_session = sess\<rparr> w2
                          = (Inr (), w3)
                        \<and> Model_deploy sv \<lparr>image_uri = img_uri, model_data = model_uri,
                                            role = EXECUTION_ROLE env, sagemaker_session = sess\<rparr>
                            1 it (make_endpoint_name pfx mid ver) True w3 = (Inl e, w4))))))"
  shows "fst (deploy_model sv env sess mid ver it pfx s) = Inr None"
proof (rule deploy_model_caught [OF _ exc])
  from raised
  show "fst (deploy_try sv env sess mid ver it (make_endpoint_name pfx mid ver)
             (s\<lparr>stdout := stdout s @
               [newline @ glyph_package @ ascii '' Deploying '' @ mid @ ascii '':'' @ ver,
                ascii ''   Endpoint: '' @ make_endpoint_name pfx mid ver,
                ascii ''   Instance type: '' @ it]\<rparr>)) = Inl e"
    by (auto simp: deploy_try_def Let_def run)
qed

lemmas stub = stub_services_def answer_def

theorem deploy_model_catches_witness:
  "is_Exception (ClientError (ascii ''quota''))
   \<and> fst (deploy_model (stub_services (raise_at_deploy (ClientError (ascii ''quota''))))
           Map.empty \<lparr>boto_region_name = ascii ''us-east-1''\<rparr> NEMOTRON_MODEL_ID
           (ascii ''1.0.0'') (ascii ''ml.g5.2xlarge'') (ascii ''mindbridge-llm'')
           (fresh Map.empty)) = Inr None"
proof -
  have exc: "is_Exception (ClientError (ascii ''quota''))" by simp
  show ?thesis
    using deploy_model_catches [OF exc,
      where sv = "stub_services (raise_at_deploy (ClientError (ascii ''quota'')))"
        and mid = NEMOTRON_MODEL_ID and ver = "ascii ''1.0.0''"
        and sess = "\<lparr>boto_region_name = ascii ''us-east-1''\<rparr>"
        and s = "fresh Map.empty" and env = Map.empty and it = "ascii ''ml.g5.2xlarge''"
        and pfx = "ascii ''mindbridge-llm''"
        and ?w1.0 = "()" and ?w2.0 = "()" and ?w3.0 = "()" and ?w4.0 = "()"]
    by (simp add: stub)
qed

lemma emits_deploy_try:
  "emits (\<lambda>c. is_deployment_call c \<and> \<not> is_open_call c
               \<and> (\<forall>r. role_of_call c = Some r \<longrightarrow> r = EXECUTION_ROLE env)
               \<and> (\<forall>t. instance_type_of_call c = Some t \<longrightarrow> t = it)
               \<and> (\<forall>n. endpoint_name_of_call c = Some n \<longrightarrow> n = nm))
     (deploy_try sv env sess mid ver it nm)"
  unfolding deploy_try_def Let_def by (intro emits_bind emits_extern emits_print emits_return) simp_all

lemma emits_deploy_model:
  "emits (\<lambda>c. is_deployment_call c \<and> \<not> is_open_call c
               \<and> (\<forall>r. role_of_call c = Some r \<longrightarrow> r = EXECUTION_ROLE env)
               \<and> (\<forall>t. instance_type_of_call c = Some t \<longrightarrow> t = it)
               \<and> (\<forall>n. endpoint_name_of_call c = Some n \<longrightarrow> n = make_endpoint_name pfx mid ver))
     (deploy_model sv env sess mid ver it pfx)"
  unfolding deploy_model_def Let_def
  by (intro emits_bind emits_print emits_try emits_deploy_try emits_deploy_except)

lemma keeps_deploy_model: "keeps_files (deploy_model sv env sess mid ver it pfx)"
  unfolding deploy_model_def deploy_try_def Let_def
  by (intro keeps_bind keeps_print keeps_try keeps_extern keeps_return keeps_deploy_except)

lemma deploy_try_first_call:
  "\<exists>cs. calls (snd (deploy_try sv env sess mid ver it nm s)) =
     calls s @ Call_model_uris_retrieve mid ver (ascii ''inference'') (boto_region_name sess) # cs"
proof -
  let ?rest = "\<lambda>model_uri.
      py_bind (extern (Call_image_uris_retrieve None mid ver (ascii ''inference'')
                 (ascii ''inference'') (boto_region_name sess))
                 (image_uris_retrieve sv None mid ver (ascii ''inference'') (ascii ''inference'')
                    (boto_region_name sess))) (\<lambda>img_uri.
      py_bind (extern (Call_Model \<lparr>image_uri = img_uri, model_data = model_uri,
                   role = EXECUTION_ROLE env, sagemaker_session = sess\<rparr>)
                 (Model_init sv \<lparr>image_uri = img_uri, model_data = model_uri,
                   role = EXECUTION_ROLE env, sagemaker_session = sess\<rparr>)) (\<lambda>_.
      py_bind (extern (Call_deploy \<lparr>image_uri = img_uri, model_data = model_uri,
                   role = EXECUTION_ROLE env, sagemaker_session = sess\<rparr> 1 it nm True)
                 (Model_deploy sv \<lparr>image_uri = img_uri, model_data = model_uri,
                   role = EXECUTION_ROLE env, sagemaker_session = sess\<rparr> 1 it nm True))
        (\<lambda>predictor.
      py_bind (print (glyph_check @ ascii '' Deployed endpoint: '' @ nm)) (\<lambda>_.
      py_bind (extern (Call_delete_model predictor) (delete_model sv predictor)) (\<lambda>_.
      py_return (Some \<lparr>model_id = mid, model_version = ver, endpoint_name = nm,
                        instance_type = it, region = boto_region_name sess\<rparr>))))))"
  have rest: "emits (\<lambda>c. True) (?rest u)" for u
    by (intro emits_bind emits_extern emits_print emits_return) simp_all
  obtain r w where op: "model_uris_retrieve sv mid ver (ascii ''inference'')
                          (boto_region_name sess) (world s) = (r, w)"
    by (cases "model_uris_retrieve sv mid ver (ascii ''inference'') (boto_region_name sess) (world s)")
  let ?s1 = "s\<lparr>world := w, calls := calls s @
               [Call_model_uris_retrieve mid ver (ascii ''inference'') (boto_region_name sess)]\<rparr>"
  show ?thesis
  proof (cases r)
    case (Inl e)
    with op show ?thesis by (simp add: deploy_try_def Let_def py_bind_apply extern_apply)
  next
    case (Inr u)
    from emitsD [OF rest, of u ?s1] obtain cs where
      "calls (snd (?rest u ?s1)) = calls ?s1 @ cs" by auto
    with op Inr show ?thesis by (simp add: deploy_try_def Let_def py_bind_apply extern_apply)
  qed
qed

lemma deploy_model_first_call:
  "\<exists>cs. calls (snd (deploy_model sv env sess mid ver it pfx s)) =
     calls s @ Call_model_uris_retrieve mid ver (ascii ''inference'') (boto_region_name sess) # cs"
proof -
  let ?s = "s\<lparr>stdout := stdout s @
           [newline @ glyph_package @ ascii '' Deploying '' @ mid @ ascii '':'' @ ver,
            ascii ''   Endpoint: '' @ make_endpoint_name pfx mid ver,
            ascii ''   Instance type: '' @ it]\<rparr>"
  let ?t = "deploy_try sv env sess mid ver it (make_endpoint_name pfx mid ver)"
  let ?c = "Call_model_uris_retrieve mid ver (ascii ''inference'') (boto_region_name sess)"
  obtain r s1 where t: "?t ?s = (r, s1)" by (cases "?t ?s")
  from deploy_try_first_call [of sv env sess mid ver it "make_endpoint_name pfx mid ver" ?s] t
  obtain cs where cs: "calls s1 = calls s @ ?c # cs" by auto
  show ?thesis
  proof (cases r)
    case (Inr y)
    with t cs show ?thesis by (simp add: deploy_model_unfold py_try_apply)
  next
    case (Inl e)
    from emitsD [OF emits_deploy_except [of "\<lambda>c. True" mid e], of s1] obtain ds where
      "calls (snd (deploy_except mid e s1)) = calls s1 @ ds" by auto
    with t cs Inl show ?thesis by (simp add: deploy_model_unfold py_try_apply)
  qed
qed

lemma deploy_model_names:
  "list_all (\<lambda>c. endpoint_name_of_call c \<in> {None, Some (make_endpoint_name pfx mid ver)})
     (calls_made (deploy_model sv env sess mid ver it pfx) s)"
  by (rule emits_calls_made, rule emits_weaken [OF emits_deploy_model [where env = env]])
     (simp, metis not_Some_eq)

lemma deploy_try_stdout:
  "\<exists>ls. stdout (snd (deploy_try sv env sess mid ver it nm s)) = stdout s @ ls"
  by (auto simp: deploy_try_def Let_def run split: prod.splits sum.splits)

lemma deploy_except_stdout: "\<exists>ls. stdout (snd (deploy_except mid e s)) = stdout s @ ls"
  by (cases e) (simp_all add: deploy_except_def run)

lemma deploy_model_printed:
  "\<exists>ls. printed (deploy_model sv env sess mid ver it pfx) s =
     [newline @ glyph_package @ ascii '' Deploying '' @ mid @ ascii '':'' @ ver,
      ascii ''   Endpoint: '' @ make_endpoint_name pfx mid ver,
      ascii ''   Instance type: '' @ it] @ ls"
proof -
  let ?s = "s\<lparr>stdout := stdout s @
           [newline @ glyph_package @ ascii '' Deploying '' @ mid @ ascii '':'' @ ver,
            ascii ''   Endpoint: '' @ make_endpoint_name pfx mid ver,
            ascii ''   Instance type: '' @ it]\<rparr>"
  let ?t = "deploy_try sv env sess mid ver it (make_endpoint_name pfx mid ver)"
  obtain r s1 where t: "?t ?s = (r, s1)" by (cases "?t ?s")
  from deploy_try_stdout [of sv env sess mid ver it "make_endpoint_name pfx mid ver" ?s] t
  obtain ls where ls: "stdout s1 = stdout ?s @ ls" by auto
  show ?thesis
  proof (cases r)
    case (Inr y)
    with t ls show ?thesis by (simp add: printed_def deploy_model_unfold py_try_apply)
  next
    case (Inl e)
    from deploy_except_stdout [of mid e s1] obtain ms where
      "stdout (snd (deploy_except mid e s1)) = stdout s1 @ ms" by auto
    with t ls Inl show ?thesis by (simp add: printed_def deploy_model_unfold py_try_apply)
  qed
qed

lemma deploy_model_announces:
  "take 2 (printed (deploy_model sv env sess mid ver it pfx) s) =
     [newline @ glyph_package @ ascii '' Deploying '' @ mid @ ascii '':'' @ ver,
      ascii ''   Endpoint: '' @ make_endpoint_name pfx mid ver]"
  using deploy_model_printed [of sv env sess mid ver it pfx s] by auto

lemma deploy_model_record_name:
  "(case fst (deploy_model sv env sess mid ver it pfx s) of
      Inr (Some x) \<Rightarrow> endpoint_name x = make_endpoint_name pfx mid ver | _ \<Rightarrow> True)"
  using deploy_model_result [of sv env sess mid ver it pfx s]
  by (auto split: sum.splits option.splits)

lemma deploy_model_result_id:
  "fst (deploy_model sv env sess mid ver it pfx s) = Inr (Some x) \<Longrightarrow> model_id x = mid"
  by (drule deploy_model_result) simp

section \<open>main\<close>

subsection \<open>The log and the files of the parts of \<open>main\<close>\<close>

lemma emits_if [intro!]: "emits Q m \<Longrightarrow> emits Q n \<Longrightarrow> emits Q (if b then m else n)"
  by simp

lemma keeps_if [intro!]: "keeps_files m \<Longrightarrow> keeps_files n \<Longrightarrow> keeps_files (if b then m else n)"
  by simp

lemma emits_resolve_versions:
  assumes "Q Call_Session" and "\<And>m r. Q (Call_get_model_specs m r)"
  shows "emits Q (resolve_versions sv env)"
  unfolding resolve_versions_def resolve_model_version_def Let_def
  by (intro emits_bind emits_extern emits_print emits_return emits_if assms)

lemma keeps_resolve_versions: "keeps_files (resolve_versions sv env)"
  unfolding resolve_versions_def resolve_model_version_def Let_def
  by (intro keeps_bind keeps_extern keeps_print keeps_return keeps_if)

lemma emits_deploy_each:
  assumes "emits Q (deploy_llm sv env session lv)" and "emits Q (deploy_embed sv env session ev)"
  shows "emits Q (deploy_each sv env session lv ev)"
  unfolding deploy_each_def Let_def by (intro emits_bind emits_return assms)

lemma keeps_deploy_each: "keeps_files (deploy_each sv env session lv ev)"
  unfolding deploy_each_def Let_def by (intro keeps_bind keeps_return keeps_deploy_model)

lemma emits_print_endpoints: "emits Q (print_endpoints es)"
  by (induction es) auto

lemma keeps_print_endpoints: "keeps_files (print_endpoints es)"
  by (induction es) auto

lemma emits_open_w_json_dump:
  "Q (Call_open path (ascii ''w'')) \<Longrightarrow> emits Q (open_w_json_dump sv path obj n)"
  by (rule emitsI)
     (auto simp: open_w_json_dump_def py_bind_apply extern_apply split: prod.splits sum.splits)

lemma emits_summarize:
  assumes "\<And>path mode. Q (Call_open path mode)"
  shows "emits Q (summarize sv proc es)"
  unfolding summarize_def Let_def
  by (intro emits_if emits_bind emits_print emits_return emits_print_endpoints
        emits_open_w_json_dump assms)

lemma emits_main:
  assumes "Q Call_Session" and "\<And>m r. Q (Call_get_model_specs m r)"
    and "\<And>path mode. Q (Call_open path mode)"
    and "\<And>session lv. emits Q (deploy_llm sv (os_environ proc) session lv)"
    and "\<And>session ev. emits Q (deploy_embed sv (os_environ proc) session ev)"
  shows "emits Q (main sv proc)"
  unfolding main_def
proof (rule emits_bind)
  show "emits Q (resolve_versions sv (os_environ proc))"
    by (rule emits_resolve_versions) (rule assms)+
next
  fix x :: "Session \<times> str \<times> str"
  obtain session lv ev where x: "x = (session, lv, ev)" by (cases x) auto
  show "emits Q (case x of (session, llm_version, embed_version) \<Rightarrow>
          py_bind (deploy_each sv (os_environ proc) session llm_version embed_version)
            (summarize sv proc))"
    unfolding x prod.case
    by (intro emits_bind emits_deploy_each emits_summarize assms)
qed

subsection \<open>Running \<open>main\<close> part by part\<close>

lemma deploy_each_run:
  assumes r1: "fst (deploy_llm sv env session lv s) = Inr r1"
    and r2: "fst (deploy_embed sv env session ev (snd (deploy_llm sv env session lv s))) = Inr r2"
  shows "deploy_each sv env session lv ev s =
     (Inr ((case r1 of Some e \<Rightarrow> [e] | None \<Rightarrow> []) @ (case r2 of Some e \<Rightarrow> [e] | None \<Rightarrow> [])),
      snd (deploy_embed sv env session ev (snd (deploy_llm sv env session lv s))))"
proof -
  obtain s1 where m1: "deploy_llm sv env session lv s = (Inr r1, s1)"
    using r1 by (cases "deploy_llm sv env session lv s") simp
  obtain s2 where m2: "deploy_embed sv env session ev s1 = (Inr r2, s2)"
    using r2 m1 by (cases "deploy_embed sv env session ev s1") simp
  show ?thesis
    by (simp add: deploy_each_def Let_def py_bind_apply py_return_apply m1 m2
             split: option.splits)
qed

lemma main_run:
  assumes rv: "fst (resolve_versions sv (os_environ proc) s) = Inr (session, lv, ev)"
    and r1: "fst (deploy_llm sv (os_environ proc) session lv
                   (snd (resolve_versions sv (os_environ proc) s))) = Inr r1"
    and r2: "fst (deploy_embed sv (os_environ proc) session ev
                   (snd (deploy_llm sv (os_environ proc) session lv
                     (snd (resolve_versions sv (os_environ proc) s))))) = Inr r2"
  shows "main sv proc s =
     summarize sv proc
       ((case r1 of Some e \<Rightarrow> [e] | None \<Rightarrow> []) @ (case r2 of Some e \<Rightarrow> [e] | None \<Rightarrow> []))
       (snd (deploy_embed sv (os_environ proc) session ev
              (snd (deploy_llm sv (os_environ proc) session lv
                (snd (resolve_versions sv (os_environ proc) s))))))"
proof -
  obtain s1 where m0: "resolve_versions sv (os_environ proc) s = (Inr (session, lv, ev), s1)"
    using rv by (cases "resolve_versions sv (os_environ proc) s") simp
  from r1 r2 have
    "deploy_each sv (os_environ proc) session lv ev s1 =
       (Inr ((case r1 of Some e \<Rightarrow> [e] | None \<Rightarrow> []) @ (case r2 of Some e \<Rightarrow> [e] | None \<Rightarrow> [])),
        snd (deploy_embed sv (os_environ proc) session ev
              (snd (deploy_llm sv (os_environ proc) session lv s1))))"
    unfolding m0 snd_conv by (rule deploy_each_run)
  then show ?thesis by (simp add: main_def py_bind_apply m0)
qed

lemma main_raises:
  "fst (resolve_versions sv (os_environ proc) s) = Inl e \<Longrightarrow>
   main sv proc s = (Inl e, snd (resolve_versions sv (os_environ proc) s))"
  by (cases "resolve_versions sv (os_environ proc) s") (simp add: main_def py_bind_apply)

lemma print_endpoints_run:
  "fst (print_endpoints es s) = Inr () \<and> files (snd (print_endpoints es s)) = files s
   \<and> calls (snd (print_endpoints es s)) = calls s"
  by (induction es arbitrary: s) (simp_all add: run)

lemma summarize_empty:
  "summarize sv proc [] s =
     (Inr (), s\<lparr>stdout := stdout s @
        [newline @ glyph_cross @ ascii '' Deployment failed. Check the errors above.'']\<rparr>)"
  by (simp add: summarize_def run)

lemma summarize_written:
  assumes "es \<noteq> []"
    and "open_file sv (summary_path proc) (ascii ''w'') (world s) = (Inr (), w)"
  shows "fst (summarize sv proc es s) = Inr ()
     \<and> files (snd (summarize sv proc es s)) =
         (files s)(summary_path proc \<mapsto> JsonDump (JArray (map dunder_dict es)) 2)
     \<and> calls (snd (summarize sv proc es s)) =
         calls s @ [Call_open (summary_path proc) (ascii ''w'')]"
  using assms
  by (simp add: summarize_def Let_def open_w_json_dump_def run print_endpoints_run)

lemma summarize_files:
  "files (snd (summarize sv proc es s)) = files s
   \<or> es \<noteq> [] \<and> files (snd (summarize sv proc es s)) =
        (files s)(summary_path proc \<mapsto> JsonDump (JArray (map dunder_dict es)) 2)"
proof (cases "es = []")
  case True
  then show ?thesis by (simp add: summarize_empty)
next
  case False
  obtain r w where op: "open_file sv (summary_path proc) (ascii ''w'') (world s) = (r, w)"
    by (cases "open_file sv (summary_path proc) (ascii ''w'') (world s)")
  show ?thesis
  proof (cases r)
    case (Inl e)
    with False op show ?thesis
      by (simp add: summarize_def Let_def open_w_json_dump_def run)
  next
    case (Inr u)
    with op have "open_file sv (summary_path proc) (ascii ''w'') (world s) = (Inr (), w)" by simp
    from summarize_written [OF False this] False show ?thesis by simp
  qed
qed

lemma emits_calls: "emits Q m \<Longrightarrow> calls (snd (m s)) = calls s @ calls_made m s"
  by (auto simp: calls_made_def dest: emitsD [of Q m s])

lemma emits_any_resolve_versions: "emits (\<lambda>c. True) (resolve_versions sv env)"
  by (rule emits_resolve_versions) simp_all

lemma emits_any_deploy_model: "emits (\<lambda>c. True) (deploy_model sv env sess mid ver it pfx)"
  by (rule emits_weaken [OF emits_deploy_model]) simp

lemma emits_any_summarize: "emits (\<lambda>c. True) (summarize sv proc es)"
  by (rule emits_summarize) simp

lemma main_calls:
  assumes rv: "fst (resolve_versions sv (os_environ proc) s) = Inr (session, lv, ev)"
    and r1: "fst (deploy_llm sv (os_environ proc) session lv
                   (snd (resolve_versions sv (os_environ proc) s))) = Inr r1"
    and r2: "fst (deploy_embed sv (os_environ proc) session ev
                   (snd (deploy_llm sv (os_environ proc) session lv
                     (snd (resolve_versions sv (os_environ proc) s))))) = Inr r2"
  shows "calls_made (main sv proc) s =
     calls_made (resolve_versions sv (os_environ proc)) s
     @ calls_made (deploy_llm sv (os_environ proc) session lv)
         (snd (resolve_versions sv (os_environ proc) s))
     @ calls_made (deploy_embed sv (os_environ proc) session ev)
         (snd (deploy_llm sv (os_environ proc) session lv
           (snd (resolve_versions sv (os_environ proc) s))))
     @ calls_made (summarize sv proc
          ((case r1 of Some e \<Rightarrow> [e] | None \<Rightarrow> []) @ (case r2 of Some e \<Rightarrow> [e] | None \<Rightarrow> [])))
         (snd (deploy_embed sv (os_environ proc) session ev
           (snd (deploy_llm sv (os_environ proc) session lv
             (snd (resolve_versions sv (os_environ proc) s))))))"
proof -
  let ?s1 = "snd (resolve_versions sv (os_environ proc) s)"
  let ?s2 = "snd (deploy_llm sv (os_environ proc) session lv ?s1)"
  let ?s3 = "snd (deploy_embed sv (os_environ proc) session ev ?s2)"
  let ?es = "(case r1 of Some e \<Rightarrow> [e] | None \<Rightarrow> []) @ (case r2 of Some e \<Rightarrow> [e] | None \<Rightarrow> [])"
  have "calls (snd (main sv proc s)) = calls (snd (summarize sv proc ?es ?s3))"
    by (simp only: main_run [OF rv r1 r2])
  also have "\<dots> = calls ?s3 @ calls_made (summarize sv proc ?es) ?s3"
    by (rule emits_calls [OF emits_any_summarize])
  also have "calls ?s3 = calls ?s2 @ calls_made (deploy_embed sv (os_environ proc) session ev) ?s2"
    by (rule emits_calls [OF emits_any_deploy_model])
  also have "calls ?s2 = calls ?s1 @ calls_made (deploy_llm sv (os_environ proc) session lv) ?s1"
    by (rule emits_calls [OF emits_any_deploy_model])
  also have "calls ?s1 = calls s @ calls_made (resolve_versions sv (os_environ proc)) s"
    by (rule emits_calls [OF emits_any_resolve_versions])
  finally show ?thesis by (simp add: calls_made_def [of "main sv proc"])
qed

lemma main_files:
  assumes rv: "fst (resolve_versions sv (os_environ proc) s) = Inr (session, lv, ev)"
    and r1: "fst (deploy_llm sv (os_environ proc) session lv
                   (snd (resolve_versions sv (os_environ proc) s))) = Inr r1"
    and r2: "fst (deploy_embed sv (os_environ proc) session ev
                   (snd (deploy_llm sv (os_environ proc) session lv
                     (snd (resolve_versions sv (os_environ proc) s))))) = Inr r2"
    and es: "es = (case r1 of Some e \<Rightarrow> [e] | None \<Rightarrow> []) @ (case r2 of Some e \<Rightarrow> [e] | None \<Rightarrow> [])"
  shows "files (snd (main sv proc s)) = files s
     \<or> es \<noteq> [] \<and> files (snd (main sv proc s)) =
          (files s)(summary_path proc \<mapsto> JsonDump (JArray (map dunder_dict es)) 2)"
proof -
  let ?s1 = "snd (resolve_versions sv (os_environ proc) s)"
  let ?s2 = "snd (deploy_llm sv (os_environ proc) session lv ?s1)"
  let ?s3 = "snd (deploy_embed sv (os_environ proc) session ev ?s2)"
  have m: "main sv proc s = summarize sv proc es ?s3"
    unfolding es by (rule main_run [OF rv r1 r2])
  have "files ?s3 = files ?s2" by (rule keeps_filesD [OF keeps_deploy_model])
  also have "\<dots> = files ?s1" by (rule keeps_filesD [OF keeps_deploy_model])
  also have "\<dots> = files s" by (rule keeps_filesD [OF keeps_resolve_versions])
  finally have f: "files ?s3 = files s" .
  from summarize_files [of sv proc es ?s3] show ?thesis
    unfolding m f .
qed

lemma deploy_model_calls_made_first:
  "\<exists>cs. calls_made (deploy_model sv env sess mid ver it pfx) s =
     Call_model_uris_retrieve mid ver (ascii ''inference'') (boto_region_name sess) # cs"
  using deploy_model_first_call [of sv env sess mid ver it pfx s]
  by (auto simp: calls_made_def)

lemma deploy_each_calls:
  assumes r1: "fst (deploy_llm sv env session lv s) = Inr r1"
    and r2: "fst (deploy_embed sv env session ev (snd (deploy_llm sv env session lv s))) = Inr r2"
  shows "calls_made (deploy_each sv env session lv ev) s =
     calls_made (deploy_llm sv env session lv) s
     @ calls_made (deploy_embed sv env session ev) (snd (deploy_llm sv env session lv s))"
proof -
  let ?s2 = "snd (deploy_llm sv env session lv s)"
  let ?s3 = "snd (deploy_embed sv env session ev ?s2)"
  have "calls (snd (deploy_each sv env session lv ev s)) = calls ?s3"
    by (simp only: deploy_each_run [OF r1 r2] snd_conv)
  also have "\<dots> = calls ?s2 @ calls_made (deploy_embed sv env session ev) ?s2"
    by (rule emits_calls [OF emits_any_deploy_model])
  also have "calls ?s2 = calls s @ calls_made (deploy_llm sv env session lv) s"
    by (rule emits_calls [OF emits_any_deploy_model])
  finally show ?thesis by (simp add: calls_made_def [of "deploy_each sv env session lv ev"])
qed

lemma main_summarizes:
  assumes rv: "fst (resolve_versions sv (os_environ proc) s) = Inr (session, lv, ev)"
    and each: "fst (deploy_each sv (os_environ proc) session lv ev
                 (snd (resolve_versions sv (os_environ proc) s))) = Inr es"
  shows "main sv proc s =
     summarize sv proc es
       (snd (deploy_each sv (os_environ proc) session lv ev
              (snd (resolve_versions sv (os_environ proc) s))))"
proof -
  obtain s1 where m0: "resolve_versions sv (os_environ proc) s = (Inr (session, lv, ev), s1)"
    using rv by (cases "resolve_versions sv (os_environ proc) s") simp
  obtain s2 where m1: "deploy_each sv (os_environ proc) session lv ev s1 = (Inr es, s2)"
    using each m0 by (cases "deploy_each sv (os_environ proc) session lv ev s1") simp
  show ?thesis by (simp add: main_def py_bind_apply m0 m1)
qed

lemma llm_name_prefix:
  "take 15 (make_endpoint_name (ascii ''mindbridge-llm'') mid ver) = ascii ''mindbridge-llm-''"
  by (simp add: make_endpoint_name_map ascii_def)

lemma embed_name_prefix:
  "take 17 (make_endpoint_name (ascii ''mindbridge-embed'') mid ver) = ascii ''mindbridge-embed-''"
  by (simp add: make_endpoint_name_map ascii_def)

subsection \<open>The stub services\<close>

lemma stub_resolve_versions:
  assumes "flt Call_Session = None" and "\<And>m r. flt (Call_get_model_specs m r) = None"
  shows "fst (resolve_versions (stub_services flt) env s) =
           Inr (\<lparr>boto_region_name = ascii ''us-east-1''\<rparr>, ascii ''1.0.0'', ascii ''1.0.0'')"
  by (simp add: resolve_versions_def resolve_model_version_def Let_def run stub assms)

lemma stub_deploy_model_ok:
  "fst (deploy_model (stub_services no_fault) env sess mid ver it pfx s) =
     Inr (Some \<lparr>model_id = mid, model_version = ver,
                endpoint_name = make_endpoint_name pfx mid ver,
                instance_type = it, region = boto_region_name sess\<rparr>)"
  by (simp add: deploy_model_unfold deploy_try_def Let_def run stub no_fault_def)

lemma stub_deploy_model_calls:
  "calls_made (deploy_model (stub_services no_fault) env sess mid ver it pfx) s =
     [Call_model_uris_retrieve mid ver (ascii ''inference'') (boto_region_name sess),
      Call_image_uris_retrieve None mid ver (ascii ''inference'') (ascii ''inference'')
        (boto_region_name sess),
      Call_Model \<lparr>image_uri = ascii ''registry/'' @ mid, model_data = ascii ''s3://models/'' @ mid,
                   role = EXECUTION_ROLE env, sagemaker_session = sess\<rparr>,
      Call_deploy \<lparr>image_uri = ascii ''registry/'' @ mid, model_data = ascii ''s3://models/'' @ mid,
                    role = EXECUTION_ROLE env, sagemaker_session = sess\<rparr>
        1 it (make_endpoint_name pfx mid ver) True,
      Call_delete_model (make_endpoint_name pfx mid ver)]"
  by (simp add: calls_made_def deploy_model_unfold deploy_try_def Let_def run stub no_fault_def)

lemma stub_deploy_model_deploy_fault:
  "is_Exception e \<Longrightarrow>
   fst (deploy_model (stub_services (raise_at_deploy e)) env sess mid ver it pfx s) = Inr None"
  by (cases e)
     (simp_all add: deploy_model_unfold deploy_try_def deploy_except_def Let_def run stub)

lemma stub_deploy_model_cleanup_fault:
  "is_Exception e \<Longrightarrow>
   fst (deploy_model (stub_services (raise_at_delete_model e)) env sess mid ver it pfx s) = Inr None"
  by (cases e)
     (simp_all add: deploy_model_unfold deploy_try_def deploy_except_def Let_def run stub)

lemma stub_deploy_model_uri_fault:
  "is_Exception e \<Longrightarrow>
   fst (deploy_model (stub_services (raise_at_model_uri m e)) env sess mid ver it pfx s) =
     Inr (if mid = m then None
          else Some \<lparr>model_id = mid, model_version = ver,
                     endpoint_name = make_endpoint_name pfx mid ver,
                     instance_type = it, region = boto_region_name sess\<rparr>)"
  by (cases e)
     (simp_all add: deploy_model_unfold deploy_try_def deploy_except_def Let_def run stub)

lemma stub_deploy_model_cleanup_fault_of:
  "is_Exception e \<Longrightarrow>
   fst (deploy_model (stub_services (raise_at_delete_model_of p e)) env sess mid ver it pfx s) =
     Inr (if make_endpoint_name pfx mid ver = p then None
          else Some \<lparr>model_id = mid, model_version = ver,
                     endpoint_name = make_endpoint_name pfx mid ver,
                     instance_type = it, region = boto_region_name sess\<rparr>)"
  by (cases e)
     (simp_all add: deploy_model_unfold deploy_try_def deploy_except_def Let_def run stub)

lemma endpoint_names_differ:
  "make_endpoint_name (ascii ''mindbridge-embed'') m v
   \<noteq> make_endpoint_name (ascii ''mindbridge-llm'') m' v'"
proof
  assume eq: "make_endpoint_name (ascii ''mindbridge-embed'') m v
              = make_endpoint_name (ascii ''mindbridge-llm'') m' v'"
  have "take 12 (take 17 (make_endpoint_name (ascii ''mindbridge-embed'') m v))
        = take 12 (take 15 (make_endpoint_name (ascii ''mindbridge-llm'') m' v'))"
    by (simp add: eq)
  then show False
    unfolding llm_name_prefix embed_name_prefix by (simp add: ascii_def)
qed

lemma model_ids_differ: "NEMOTRON_MODEL_ID \<noteq> EMBED_MODEL_ID"
  by (simp add: NEMOTRON_MODEL_ID_def EMBED_MODEL_ID_def ascii_def)

section \<open>The properties of the deployment\<close>

text \<open>
  C5. Endpoint naming is deterministic. Take any two calls of \<open>deploy_model\<close> with the same
  endpoint prefix, model id and version; everything else may differ between them (the
  services and what they answer or raise, the environment, the session and its region, the
  instance type, what was printed or logged before), and either call may fail. Both
  compute the same endpoint name, the one of source lines 68-69: it is the name both
  announce on the output (their first two lines are equal, the second being the
  \<open>Endpoint:\<close> line), the only name an endpoint-creation call of either asks for, and the
  name in the record of either when it returns one.
\<close>

theorem endpoint_name_deterministic:
  "take 2 (printed (deploy_model sv1 env1 sess1 mid ver it1 pfx) s1)
     = take 2 (printed (deploy_model sv2 env2 sess2 mid ver it2 pfx) s2)
   \<and> printed (deploy_model sv1 env1 sess1 mid ver it1 pfx) s1 ! 1
       = ascii ''   Endpoint: '' @ make_endpoint_name pfx mid ver
   \<and> list_all (\<lambda>c. endpoint_name_of_call c \<in> {None, Some (make_endpoint_name pfx mid ver)})
       (calls_made (deploy_model sv1 env1 sess1 mid ver it1 pfx) s1)
   \<and> list_all (\<lambda>c. endpoint_name_of_call c \<in> {None, Some (make_endpoint_name pfx mid ver)})
       (calls_made (deploy_model sv2 env2 sess2 mid ver it2 pfx) s2)
   \<and> (case fst (deploy_model sv1 env1 sess1 mid ver it1 pfx s1) of
         Inr (Some x) \<Rightarrow> endpoint_name x = make_endpoint_name pfx mid ver | _ \<Rightarrow> True)
   \<and> (case fst (deploy_model sv2 env2 sess2 mid ver it2 pfx s2) of
         Inr (Some x) \<Rightarrow> endpoint_name x = make_endpoint_name pfx mid ver | _ \<Rightarrow> True)"
proof -
  have "printed (deploy_model sv1 env1 sess1 mid ver it1 pfx) s1 ! 1
          = ascii ''   Endpoint: '' @ make_endpoint_name pfx mid ver"
    using deploy_model_printed [of sv1 env1 sess1 mid ver it1 pfx s1] by auto
  then show ?thesis
    by (simp only: deploy_model_announces deploy_model_names deploy_model_record_name
          simp_thms)
qed

theorem endpoint_name_deterministic_witness:
  "fst (deploy_model (stub_services no_fault) Map.empty \<lparr>boto_region_name = ascii ''us-east-1''\<rparr>
          EMBED_MODEL_ID (ascii ''0.9.3'') (ascii ''ml.g5.xlarge'') (ascii ''mindbridge-embed'')
          (fresh Map.empty))
     = Inr (Some \<lparr>model_id = EMBED_MODEL_ID, model_version = ascii ''0.9.3'',
                  endpoint_name = make_endpoint_name (ascii ''mindbridge-embed'') EMBED_MODEL_ID
                                    (ascii ''0.9.3''),
                  instance_type = ascii ''ml.g5.xlarge'', region = ascii ''us-east-1''\<rparr>)
   \<and> fst (deploy_model
            (stub_services (raise_at_deploy (ClientError (ascii ''endpoint already exists''))))
            [ascii ''SAGEMAKER_EXECUTION_ROLE'' \<mapsto> ascii ''arn:aws:iam::1:role/other'']
            \<lparr>boto_region_name = ascii ''eu-west-1''\<rparr>
            EMBED_MODEL_ID (ascii ''0.9.3'') (ascii ''ml.p4d.24xlarge'') (ascii ''mindbridge-embed'')
            (fresh [ascii ''notes.txt'' \<mapsto> RawText (ascii ''x'')]))
     = Inr None
   \<and> take 2 (printed (deploy_model (stub_services no_fault) Map.empty
                \<lparr>boto_region_name = ascii ''us-east-1''\<rparr>
                EMBED_MODEL_ID (ascii ''0.9.3'') (ascii ''ml.g5.xlarge'') (ascii ''mindbridge-embed''))
              (fresh Map.empty))
     = take 2 (printed (deploy_model
                (stub_services (raise_at_deploy (ClientError (ascii ''endpoint already exists''))))
                [ascii ''SAGEMAKER_EXECUTION_ROLE'' \<mapsto> ascii ''arn:aws:iam::1:role/other'']
                \<lparr>boto_region_name = ascii ''eu-west-1''\<rparr>
                EMBED_MODEL_ID (ascii ''0.9.3'') (ascii ''ml.p4d.24xlarge'')
                (ascii ''mindbridge-embed''))
              (fresh [ascii ''notes.txt'' \<mapsto> RawText (ascii ''x'')]))"
proof (intro conjI)
  show "fst (deploy_model (stub_services no_fault) Map.empty
               \<lparr>boto_region_name = ascii ''us-east-1''\<rparr>
               EMBED_MODEL_ID (ascii ''0.9.3'') (ascii ''ml.g5.xlarge'') (ascii ''mindbridge-embed'')
               (fresh Map.empty))
     = Inr (Some \<lparr>model_id = EMBED_MODEL_ID, model_version = ascii ''0.9.3'',
                  endpoint_name = make_endpoint_name (ascii ''mindbridge-embed'') EMBED_MODEL_ID
                                    (ascii ''0.9.3''),
                  instance_type = ascii ''ml.g5.xlarge'', region = ascii ''us-east-1''\<rparr>)"
    by (simp add: stub_deploy_model_ok)
  show "fst (deploy_model
            (stub_services (raise_at_deploy (ClientError (ascii ''endpoint already exists''))))
            [ascii ''SAGEMAKER_EXECUTION_ROLE'' \<mapsto> ascii ''arn:aws:iam::1:role/other'']
            \<lparr>boto_region_name = ascii ''eu-west-1''\<rparr>
            EMBED_MODEL_ID (ascii ''0.9.3'') (ascii ''ml.p4d.24xlarge'') (ascii ''mindbridge-embed'')
            (fresh [ascii ''notes.txt'' \<mapsto> RawText (ascii ''x'')]))
     = Inr None"
    by (simp add: stub_deploy_model_deploy_fault)
  show "take 2 (printed (deploy_model (stub_services no_fault) Map.empty
                \<lparr>boto_region_name = ascii ''us-east-1''\<rparr>
                EMBED_MODEL_ID (ascii ''0.9.3'') (ascii ''ml.g5.xlarge'') (ascii ''mindbridge-embed''))
              (fresh Map.empty))
     = take 2 (printed (deploy_model
                (stub_services (raise_at_deploy (ClientError (ascii ''endpoint already exists''))))
                [ascii ''SAGEMAKER_EXECUTION_ROLE'' \<mapsto> ascii ''arn:aws:iam::1:role/other'']
                \<lparr>boto_region_name = ascii ''eu-west-1''\<rparr>
                EMBED_MODEL_ID (ascii ''0.9.3'') (ascii ''ml.p4d.24xlarge'')
                (ascii ''mindbridge-embed''))
              (fresh [ascii ''notes.txt'' \<mapsto> RawText (ascii ''x'')]))"
    by (rule conjunct1 [OF endpoint_name_deterministic])
qed

text \<open>
  C10. When the four service calls of a deployment return, so the platform has created the
  endpoint and \<open>model.deploy\<close> has handed back its predictor, and the release of the local
  handle (\<open>predictor.delete_model()\<close>) then raises an exception, \<open>deploy_model\<close> returns
  \<open>None\<close> and no record: its log is the five calls, the endpoint-creation call among them,
  answered. When this is one of the two deployments of a run of \<open>main\<close> (the reasoning
  model's, from the state the version lookups leave, or the embedding model's, from the
  state the first deployment leaves), the endpoint-creation call is in the log of the run,
  and yet the result list holds no record of that model and the summary file is either left
  as it was or written from that list: the live endpoint is in neither.
\<close>

theorem cleanup_fault_loses_endpoint:
  assumes exc: "is_Exception e"
    and uri: "model_uris_retrieve sv mid ver (ascii ''inference'') (boto_region_name sess)
                (world s) = (Inr model_uri, w1)"
    and img: "image_uris_retrieve sv None mid ver (ascii ''inference'') (ascii ''inference'')
                (boto_region_name sess) w1 = (Inr img_uri, w2)"
    and mdl: "Model_init sv \<lparr>image_uri = img_uri, model_data = model_uri,
                role = EXECUTION_ROLE env, sagemaker_session = sess\<rparr> w2 = (Inr (), w3)"
    and live: "Model_deploy sv \<lparr>image_uri = img_uri, model_data = model_uri,
                 role = EXECUTION_ROLE env, sagemaker_session = sess\<rparr>
                 1 it (make_endpoint_name pfx mid ver) True w3 = (Inr predictor, w4)"
    and cleanup: "delete_model sv predictor w4 = (Inl e, w5)"
  shows "fst (deploy_model sv env sess mid ver it pfx s) = Inr None
         \<and> calls_made (deploy_model sv env sess mid ver it pfx) s =
             [Call_model_uris_retrieve mid ver (ascii ''inference'') (boto_region_name sess),
              Call_image_uris_retrieve None mid ver (ascii ''inference'') (ascii ''inference'')
                (boto_region_name sess),
              Call_Model \<lparr>image_uri = img_uri, model_data = model_uri,
                role = EXECUTION_ROLE env, sagemaker_session = sess\<rparr>,
              Call_deploy \<lparr>image_uri = img_uri, model_data = model_uri,
                role = EXECUTION_ROLE env, sagemaker_session = sess\<rparr>
                1 it (make_endpoint_name pfx mid ver) True,
              Call_delete_model predictor]
         \<and> world (snd (deploy_model sv env sess mid ver it pfx s)) = w5
         \<and> (env = os_environ proc
              \<and> fst (resolve_versions sv env s0) = Inr (sess, lv, ev)
              \<and> fst (deploy_llm sv env sess lv (snd (resolve_versions sv env s0))) = Inr r1
              \<and> fst (deploy_embed sv env sess ev
                       (snd (deploy_llm sv env sess lv (snd (resolve_versions sv env s0)))))
                  = Inr r2
              \<and> ((mid, ver, it, pfx, s) =
                    (NEMOTRON_MODEL_ID, lv, LLM_INSTANCE env, ascii ''mindbridge-llm'',
                     snd (resolve_versions sv env s0))
                 \<or> (mid, ver, it, pfx, s) =
                    (EMBED_MODEL_ID, ev, EMBED_INSTANCE env, ascii ''mindbridge-embed'',
                     snd (deploy_llm sv env sess lv (snd (resolve_versions sv env s0)))))
            \<longrightarrow> (let endpoints = (case r1 of Some x \<Rightarrow> [x] | None \<Rightarrow> [])
                                   @ (case r2 of Some x \<Rightarrow> [x] | None \<Rightarrow> [])
                 in fst (deploy_each sv env sess lv ev (snd (resolve_versions sv env s0)))
                      = Inr endpoints
                    \<and> list_all (\<lambda>x. model_id x \<noteq> mid) endpoints
                    \<and> (files (snd (main sv proc s0)) = files s0
                       \<or> endpoints \<noteq> []
                         \<and> files (snd (main sv proc s0)) =
                             (files s0)(summary_path proc \<mapsto>
                                JsonDump (JArray (map dunder_dict endpoints)) 2))
                    \<and> Call_deploy \<lparr>image_uri = img_uri, model_data = model_uri,
                         role = EXECUTION_ROLE env, sagemaker_session = sess\<rparr>
                         1 it (make_endpoint_name pfx mid ver) True
                       \<in> set (calls_made (main sv proc) s0)))"
proof -
  let ?s = "s\<lparr>stdout := stdout s @
           [newline @ glyph_package @ ascii '' Deploying '' @ mid @ ascii '':'' @ ver,
            ascii ''   Endpoint: '' @ make_endpoint_name pfx mid ver,
            ascii ''   Instance type: '' @ it]\<rparr>"
  let ?M = "\<lparr>image_uri = img_uri, model_data = model_uri,
             role = EXECUTION_ROLE env, sagemaker_session = sess\<rparr>"
  let ?log = "[Call_model_uris_retrieve mid ver (ascii ''inference'') (boto_region_name sess),
              Call_image_uris_retrieve None mid ver (ascii ''inference'') (ascii ''inference'')
                (boto_region_name sess),
              Call_Model ?M,
              Call_deploy ?M 1 it (make_endpoint_name pfx mid ver) True,
              Call_delete_model predictor]"
  have t: "deploy_try sv env sess mid ver it (make_endpoint_name pfx mid ver) ?s =
     (Inl e, s\<lparr>stdout := stdout s @
           [newline @ glyph_package @ ascii '' Deploying '' @ mid @ ascii '':'' @ ver,
            ascii ''   Endpoint: '' @ make_endpoint_name pfx mid ver,
            ascii ''   Instance type: '' @ it,
            glyph_check @ ascii '' Deployed endpoint: '' @ make_endpoint_name pfx mid ver],
         world := w5, calls := calls s @ ?log\<rparr>)"
    using uri img mdl live cleanup by (simp add: deploy_try_def Let_def run)
  from exc have local:
    "fst (deploy_model sv env sess mid ver it pfx s) = Inr None
     \<and> calls_made (deploy_model sv env sess mid ver it pfx) s = ?log
     \<and> world (snd (deploy_model sv env sess mid ver it pfx s)) = w5"
    by (cases e)
       (simp_all add: deploy_model_unfold py_try_apply t deploy_except_def run calls_made_def)
  then have none: "fst (deploy_model sv env sess mid ver it pfx s) = Inr None"
    and log: "calls_made (deploy_model sv env sess mid ver it pfx) s = ?log"
    by simp_all
  have whole: "let endpoints = (case r1 of Some x \<Rightarrow> [x] | None \<Rightarrow> [])
                                   @ (case r2 of Some x \<Rightarrow> [x] | None \<Rightarrow> [])
                 in fst (deploy_each sv env sess lv ev (snd (resolve_versions sv env s0)))
                      = Inr endpoints
                    \<and> list_all (\<lambda>x. model_id x \<noteq> mid) endpoints
                    \<and> (files (snd (main sv proc s0)) = files s0
                       \<or> endpoints \<noteq> []
                         \<and> files (snd (main sv proc s0)) =
                             (files s0)(summary_path proc \<mapsto>
                                JsonDump (JArray (map dunder_dict endpoints)) 2))
                    \<and> Call_deploy ?M 1 it (make_endpoint_name pfx mid ver) True
                       \<in> set (calls_made (main sv proc) s0)"
    if env: "env = os_environ proc"
      and rv: "fst (resolve_versions sv env s0) = Inr (sess, lv, ev)"
      and r1: "fst (deploy_llm sv env sess lv (snd (resolve_versions sv env s0))) = Inr r1"
      and r2: "fst (deploy_embed sv env sess ev
                 (snd (deploy_llm sv env sess lv (snd (resolve_versions sv env s0))))) = Inr r2"
      and pos: "(mid, ver, it, pfx, s) =
                    (NEMOTRON_MODEL_ID, lv, LLM_INSTANCE env, ascii ''mindbridge-llm'',
                     snd (resolve_versions sv env s0))
                 \<or> (mid, ver, it, pfx, s) =
                    (EMBED_MODEL_ID, ev, EMBED_INSTANCE env, ascii ''mindbridge-embed'',
                     snd (deploy_llm sv env sess lv (snd (resolve_versions sv env s0))))"
  proof -
    let ?es = "(case r1 of Some x \<Rightarrow> [x] | None \<Rightarrow> []) @ (case r2 of Some x \<Rightarrow> [x] | None \<Rightarrow> [])"
    have each: "fst (deploy_each sv env sess lv ev (snd (resolve_versions sv env s0))) = Inr ?es"
      by (simp only: deploy_each_run [OF r1 r2] fst_conv)
    have fl: "files (snd (main sv proc s0)) = files s0
              \<or> ?es \<noteq> [] \<and> files (snd (main sv proc s0)) =
                   (files s0)(summary_path proc \<mapsto> JsonDump (JArray (map dunder_dict ?es)) 2)"
      using rv r1 r2 unfolding env by (rule main_files) simp
    have cm: "calls_made (main sv proc) s0 =
       calls_made (resolve_versions sv env) s0
       @ calls_made (deploy_llm sv env sess lv) (snd (resolve_versions sv env s0))
       @ calls_made (deploy_embed sv env sess ev)
           (snd (deploy_llm sv env sess lv (snd (resolve_versions sv env s0))))
       @ calls_made (summarize sv proc ?es)
           (snd (deploy_embed sv env sess ev
             (snd (deploy_llm sv env sess lv (snd (resolve_versions sv env s0))))))"
      using rv r1 r2 unfolding env by (rule main_calls)
    from pos have "list_all (\<lambda>x. model_id x \<noteq> mid) ?es
        \<and> Call_deploy ?M 1 it (make_endpoint_name pfx mid ver) True
           \<in> set (calls_made (main sv proc) s0)"
    proof
      assume p: "(mid, ver, it, pfx, s) =
                    (NEMOTRON_MODEL_ID, lv, LLM_INSTANCE env, ascii ''mindbridge-llm'',
                     snd (resolve_versions sv env s0))"
      with none r1 have n1: "r1 = None" by simp
      have "model_id x = EMBED_MODEL_ID" if "r2 = Some x" for x
        using r2 that by (auto dest: deploy_model_result_id)
      with n1 p model_ids_differ have "list_all (\<lambda>x. model_id x \<noteq> mid) ?es"
        by (cases r2) auto
      moreover from p log have
        "calls_made (deploy_llm sv env sess lv) (snd (resolve_versions sv env s0)) = ?log"
        by simp
      then have "Call_deploy ?M 1 it (make_endpoint_name pfx mid ver) True
           \<in> set (calls_made (main sv proc) s0)"
        unfolding cm by simp
      ultimately show ?thesis ..
    next
      assume p: "(mid, ver, it, pfx, s) =
                    (EMBED_MODEL_ID, ev, EMBED_INSTANCE env, ascii ''mindbridge-embed'',
                     snd (deploy_llm sv env sess lv (snd (resolve_versions sv env s0))))"
      with none r2 have n2: "r2 = None" by simp
      have "model_id x = NEMOTRON_MODEL_ID" if "r1 = Some x" for x
        using r1 that by (auto dest: deploy_model_result_id)
      with n2 p model_ids_differ have "list_all (\<lambda>x. model_id x \<noteq> mid) ?es"
        by (cases r1) auto
      moreover from p log have
        "calls_made (deploy_embed sv env sess ev)
           (snd (deploy_llm sv env sess lv (snd (resolve_versions sv env s0)))) = ?log"
        by simp
      then have "Call_deploy ?M 1 it (make_endpoint_name pfx mid ver) True
           \<in> set (calls_made (main sv proc) s0)"
        unfolding cm by simp
      ultimately show ?thesis ..
    qed
    with each fl show ?thesis unfolding Let_def by blast
  qed
  from local whole show ?thesis by blast
qed

theorem cleanup_fault_loses_endpoint_witness:
  "is_Exception (OtherException (ascii ''no attribute delete_model''))
   \<and> Call_deploy
         \<lparr>image_uri = ascii ''registry/'' @ NEMOTRON_MODEL_ID,
            model_data = ascii ''s3://models/'' @ NEMOTRON_MODEL_ID,
            role = EXECUTION_ROLE (os_environ stub_process),
            sagemaker_session = \<lparr>boto_region_name = ascii ''us-east-1''\<rparr>\<rparr>
         1 (LLM_INSTANCE (os_environ stub_process))
         (make_endpoint_name (ascii ''mindbridge-llm'') NEMOTRON_MODEL_ID (ascii ''1.0.0''))
         True
       \<in> set (calls_made
                (main (stub_services (raise_at_delete_model_of
                         (make_endpoint_name (ascii ''mindbridge-llm'') NEMOTRON_MODEL_ID
                            (ascii ''1.0.0''))
                         (OtherException (ascii ''no attribute delete_model''))))
                   stub_process)
                (fresh Map.empty))
   \<and> fst (deploy_each
            (stub_services (raise_at_delete_model_of
               (make_endpoint_name (ascii ''mindbridge-llm'') NEMOTRON_MODEL_ID (ascii ''1.0.0''))
               (OtherException (ascii ''no attribute delete_model''))))
            (os_environ stub_process) \<lparr>boto_region_name = ascii ''us-east-1''\<rparr>
            (ascii ''1.0.0'') (ascii ''1.0.0'')
            (snd (resolve_versions
               (stub_services (raise_at_delete_model_of
                  (make_endpoint_name (ascii ''mindbridge-llm'') NEMOTRON_MODEL_ID
                     (ascii ''1.0.0''))
                  (OtherException (ascii ''no attribute delete_model''))))
               (os_environ stub_process) (fresh Map.empty))))
       = Inr [\<lparr>model_id = EMBED_MODEL_ID, model_version = ascii ''1.0.0'',
                endpoint_name = make_endpoint_name (ascii ''mindbridge-embed'') EMBED_MODEL_ID
                                  (ascii ''1.0.0''),
                instance_type = EMBED_INSTANCE (os_environ stub_process),
                region = ascii ''us-east-1''\<rparr>]
   \<and> files (snd (main
            (stub_services (raise_at_delete_model_of
               (make_endpoint_name (ascii ''mindbridge-llm'') NEMOTRON_MODEL_ID (ascii ''1.0.0''))
               (OtherException (ascii ''no attribute delete_model''))))
            stub_process (fresh Map.empty)))
       = [summary_path stub_process \<mapsto>
            JsonDump (JArray
              [dunder_dict \<lparr>model_id = EMBED_MODEL_ID, model_version = ascii ''1.0.0'',
                 endpoint_name = make_endpoint_name (ascii ''mindbridge-embed'') EMBED_MODEL_ID
                                   (ascii ''1.0.0''),
                 instance_type = EMBED_INSTANCE (os_environ stub_process),
                 region = ascii ''us-east-1''\<rparr>]) 2]"
proof -
  let ?e = "OtherException (ascii ''no attribute delete_model'')"
  let ?v = "ascii ''1.0.0''"
  let ?nm = "make_endpoint_name (ascii ''mindbridge-llm'') NEMOTRON_MODEL_ID ?v"
  let ?sv = "stub_services (raise_at_delete_model_of ?nm ?e)"
  let ?env = "os_environ stub_process"
  let ?sess = "\<lparr>boto_region_name = ascii ''us-east-1''\<rparr>"
  let ?s1 = "snd (resolve_versions ?sv ?env (fresh Map.empty))"
  let ?s2 = "snd (deploy_llm ?sv ?env ?sess ?v ?s1)"
  let ?s3 = "snd (deploy_embed ?sv ?env ?sess ?v ?s2)"
  let ?M = "\<lparr>image_uri = ascii ''registry/'' @ NEMOTRON_MODEL_ID,
             model_data = ascii ''s3://models/'' @ NEMOTRON_MODEL_ID,
             role = EXECUTION_ROLE ?env, sagemaker_session = ?sess\<rparr>"
  let ?x2 = "\<lparr>model_id = EMBED_MODEL_ID, model_version = ?v,
              endpoint_name = make_endpoint_name (ascii ''mindbridge-embed'') EMBED_MODEL_ID ?v,
              instance_type = EMBED_INSTANCE ?env, region = boto_region_name ?sess\<rparr>"
  have exc: "is_Exception ?e" by simp
  have uri: "model_uris_retrieve ?sv NEMOTRON_MODEL_ID ?v (ascii ''inference'')
               (boto_region_name ?sess) (world ?s1)
             = (Inr (ascii ''s3://models/'' @ NEMOTRON_MODEL_ID), ())"
    by (simp add: stub)
  have img: "image_uris_retrieve ?sv None NEMOTRON_MODEL_ID ?v (ascii ''inference'')
               (ascii ''inference'') (boto_region_name ?sess) ()
             = (Inr (ascii ''registry/'' @ NEMOTRON_MODEL_ID), ())"
    by (simp add: stub)
  have mdl: "Model_init ?sv ?M () = (Inr (), ())"
    by (simp add: stub)
  have live: "Model_deploy ?sv ?M 1 (LLM_INSTANCE ?env) ?nm True () = (Inr ?nm, ())"
    by (simp add: stub)
  have cleanup: "delete_model ?sv ?nm () = (Inl ?e, ())"
    by (simp add: stub)
  have rv: "fst (resolve_versions ?sv ?env (fresh Map.empty)) = Inr (?sess, ?v, ?v)"
    by (rule stub_resolve_versions) simp_all
  have r1: "fst (deploy_llm ?sv ?env ?sess ?v ?s1) = Inr None"
    by (simp add: stub_deploy_model_cleanup_fault_of)
  have r2: "fst (deploy_embed ?sv ?env ?sess ?v ?s2) = Inr (Some ?x2)"
    by (simp add: stub_deploy_model_cleanup_fault_of endpoint_names_differ)
  have opened: "open_file ?sv (summary_path stub_process) (ascii ''w'') (world ?s3) = (Inr (), ())"
    by (simp add: stub)
  have "files ?s3 = files ?s2" by (rule keeps_filesD [OF keeps_deploy_model])
  also have "\<dots> = files ?s1" by (rule keeps_filesD [OF keeps_deploy_model])
  also have "\<dots> = files (fresh Map.empty)" by (rule keeps_filesD [OF keeps_resolve_versions])
  finally have f: "files ?s3 = Map.empty" by (simp add: fresh_def)
  have m: "main ?sv stub_process (fresh Map.empty) = summarize ?sv stub_process [?x2] ?s3"
    using main_run [OF rv r1 r2] by simp
  have written: "files (snd (main ?sv stub_process (fresh Map.empty)))
        = [summary_path stub_process \<mapsto> JsonDump (JArray [dunder_dict ?x2]) 2]"
    using summarize_written [of "[?x2]" ?sv stub_process ?s3 "()"] opened
    by (simp add: m f)
  from cleanup_fault_loses_endpoint [OF exc uri img mdl live cleanup,
         where proc = stub_process and ?s0.0 = "fresh Map.empty" and lv = ?v and ev = ?v
           and ?r1.0 = None and ?r2.0 = "Some ?x2"]
  have "fst (deploy_each ?sv ?env ?sess ?v ?v ?s1) = Inr [?x2]
        \<and> Call_deploy ?M 1 (LLM_INSTANCE ?env) ?nm True
            \<in> set (calls_made (main ?sv stub_process) (fresh Map.empty))"
    using rv r1 r2 by (simp add: Let_def)
  with exc written show ?thesis by simp
qed

section \<open>The properties of the run\<close>

text \<open>
  C2. In the two deployments of source lines 144-164, when both calls of \<open>deploy_model\<close> return
  and exactly one of them returns \<open>None\<close>, the other deployment is attempted all the same:
  the log of the two holds the artifact lookup of the reasoning model and, after it, the
  artifact lookup of the embedding model, the first call of each deployment. The result list
  then has exactly one record, the one the surviving deployment returned, for the model that
  survived.
\<close>

theorem one_failure_keeps_other:
  assumes r1: "fst (deploy_llm sv env session lv s) = Inr r1"
    and r2: "fst (deploy_embed sv env session ev (snd (deploy_llm sv env session lv s))) = Inr r2"
    and one: "(r1 = None) \<noteq> (r2 = None)"
  shows "(\<exists>x. fst (deploy_each sv env session lv ev s) = Inr [x]
              \<and> (if r1 = None then r2 = Some x \<and> model_id x = EMBED_MODEL_ID
                  else r1 = Some x \<and> model_id x = NEMOTRON_MODEL_ID))
         \<and> (\<exists>cs1 cs2. calls_made (deploy_each sv env session lv ev) s =
               Call_model_uris_retrieve NEMOTRON_MODEL_ID lv (ascii ''inference'')
                 (boto_region_name session) # cs1
               @ Call_model_uris_retrieve EMBED_MODEL_ID ev (ascii ''inference'')
                   (boto_region_name session) # cs2)"
proof
  have each: "fst (deploy_each sv env session lv ev s) =
     Inr ((case r1 of Some e \<Rightarrow> [e] | None \<Rightarrow> []) @ (case r2 of Some e \<Rightarrow> [e] | None \<Rightarrow> []))"
    by (simp only: deploy_each_run [OF r1 r2] fst_conv)
  show "\<exists>x. fst (deploy_each sv env session lv ev s) = Inr [x]
              \<and> (if r1 = None then r2 = Some x \<and> model_id x = EMBED_MODEL_ID
                  else r1 = Some x \<and> model_id x = NEMOTRON_MODEL_ID)"
  proof (cases r1)
    case None
    with one obtain x where x: "r2 = Some x" by auto
    with r2 have "model_id x = EMBED_MODEL_ID" by (auto dest: deploy_model_result_id)
    with None x each show ?thesis by simp
  next
    case (Some x)
    with one have n: "r2 = None" by auto
    from Some r1 have "model_id x = NEMOTRON_MODEL_ID" by (auto dest: deploy_model_result_id)
    with Some n each show ?thesis by simp
  qed
next
  from deploy_model_calls_made_first [of sv env session NEMOTRON_MODEL_ID lv "LLM_INSTANCE env"
         "ascii ''mindbridge-llm''" s]
  obtain cs1 where c1: "calls_made (deploy_llm sv env session lv) s =
      Call_model_uris_retrieve NEMOTRON_MODEL_ID lv (ascii ''inference'')
        (boto_region_name session) # cs1" ..
  from deploy_model_calls_made_first [of sv env session EMBED_MODEL_ID ev "EMBED_INSTANCE env"
         "ascii ''mindbridge-embed''" "snd (deploy_llm sv env session lv s)"]
  obtain cs2 where c2: "calls_made (deploy_embed sv env session ev)
        (snd (deploy_llm sv env session lv s)) =
      Call_model_uris_retrieve EMBED_MODEL_ID ev (ascii ''inference'')
        (boto_region_name session) # cs2" ..
  show "\<exists>cs1 cs2. calls_made (deploy_each sv env session lv ev) s =
               Call_model_uris_retrieve NEMOTRON_MODEL_ID lv (ascii ''inference'')
                 (boto_region_name session) # cs1
               @ Call_model_uris_retrieve EMBED_MODEL_ID ev (ascii ''inference'')
                   (boto_region_name session) # cs2"
    unfolding deploy_each_calls [OF r1 r2] c1 c2 by (intro exI [of _ cs1] exI [of _ cs2]) simp
qed

theorem one_failure_keeps_other_witness:
  "fst (deploy_llm
          (stub_services (raise_at_model_uri EMBED_MODEL_ID (OtherException (ascii ''no artifact''))))
          Map.empty \<lparr>boto_region_name = ascii ''us-east-1''\<rparr> (ascii ''2.1.0'') (fresh Map.empty))
     = Inr (Some \<lparr>model_id = NEMOTRON_MODEL_ID, model_version = ascii ''2.1.0'',
                  endpoint_name = make_endpoint_name (ascii ''mindbridge-llm'') NEMOTRON_MODEL_ID
                                    (ascii ''2.1.0''),
                  instance_type = LLM_INSTANCE Map.empty, region = ascii ''us-east-1''\<rparr>)
   \<and> fst (deploy_embed
          (stub_services (raise_at_model_uri EMBED_MODEL_ID (OtherException (ascii ''no artifact''))))
          Map.empty \<lparr>boto_region_name = ascii ''us-east-1''\<rparr> (ascii ''0.9.3'')
          (snd (deploy_llm
             (stub_services (raise_at_model_uri EMBED_MODEL_ID
                (OtherException (ascii ''no artifact''))))
             Map.empty \<lparr>boto_region_name = ascii ''us-east-1''\<rparr> (ascii ''2.1.0'')
             (fresh Map.empty))))
     = Inr None
   \<and> fst (deploy_each
          (stub_services (raise_at_model_uri EMBED_MODEL_ID (OtherException (ascii ''no artifact''))))
          Map.empty \<lparr>boto_region_name = ascii ''us-east-1''\<rparr> (ascii ''2.1.0'') (ascii ''0.9.3'')
          (fresh Map.empty))
     = Inr [\<lparr>model_id = NEMOTRON_MODEL_ID, model_version = ascii ''2.1.0'',
              endpoint_name = make_endpoint_name (ascii ''mindbridge-llm'') NEMOTRON_MODEL_ID
                                (ascii ''2.1.0''),
              instance_type = LLM_INSTANCE Map.empty, region = ascii ''us-east-1''\<rparr>]"
proof -
  let ?sv = "stub_services (raise_at_model_uri EMBED_MODEL_ID (OtherException (ascii ''no artifact'')))"
  let ?sess = "\<lparr>boto_region_name = ascii ''us-east-1''\<rparr>"
  let ?x = "\<lparr>model_id = NEMOTRON_MODEL_ID, model_version = ascii ''2.1.0'',
             endpoint_name = make_endpoint_name (ascii ''mindbridge-llm'') NEMOTRON_MODEL_ID
                               (ascii ''2.1.0''),
             instance_type = LLM_INSTANCE Map.empty, region = ascii ''us-east-1''\<rparr>"
  have r1: "fst (deploy_llm ?sv Map.empty ?sess (ascii ''2.1.0'') (fresh Map.empty))
            = Inr (Some ?x)"
    by (simp add: stub_deploy_model_uri_fault model_ids_differ)
  have r2: "fst (deploy_embed ?sv Map.empty ?sess (ascii ''0.9.3'')
              (snd (deploy_llm ?sv Map.empty ?sess (ascii ''2.1.0'') (fresh Map.empty))))
            = Inr None"
    by (simp add: stub_deploy_model_uri_fault)
  have one: "(Some ?x = None) \<noteq> ((None :: EndpointInfo option) = None)" by simp
  from one_failure_keeps_other [OF r1 r2 one]
  have "fst (deploy_each ?sv Map.empty ?sess (ascii ''2.1.0'') (ascii ''0.9.3'') (fresh Map.empty))
        = Inr [?x]"
    by auto
  with r1 r2 show ?thesis by (intro conjI)
qed

text \<open>
  C6. When the session is created and one of the two version lookups of source lines 139-140
  raises (the first, or the second after the first returned), \<open>main\<close> does not catch the
  fault: the run ends with it, and the interpreter's exit status is the one of that fault.
  No version stands in for the missing one, because nothing follows the lookup: the log of
  the run is the session and the lookups made so far, no call of a deployment is in it for
  either model, and no file is written.
\<close>

theorem version_fault_aborts_run:
  assumes sess: "Session_init sv (world s) = (Inr session, w1)"
    and fault:
      "get_model_specs sv NEMOTRON_MODEL_ID (boto_region_name session) w1 = (Inl e, w2)
       \<or> (\<exists>lv. get_model_specs sv NEMOTRON_MODEL_ID (boto_region_name session) w1
                   = (Inr lv, w2)
               \<and> get_model_specs sv EMBED_MODEL_ID (boto_region_name session) w2
                   = (Inl e, w3))"
  shows "fst (main sv proc s) = Inl e
         \<and> fst (run_script sv proc s) = exit_status (Inl e)
         \<and> calls_made (main sv proc) s \<in>
             {[Call_Session,
               Call_get_model_specs NEMOTRON_MODEL_ID (boto_region_name session)],
              [Call_Session,
               Call_get_model_specs NEMOTRON_MODEL_ID (boto_region_name session),
               Call_get_model_specs EMBED_MODEL_ID (boto_region_name session)]}
         \<and> list_all (\<lambda>c. \<not> is_deployment_call c) (calls_made (main sv proc) s)
         \<and> files (snd (main sv proc s)) = files s"
proof -
  let ?rv = "resolve_versions sv (os_environ proc)"
  from fault have rv:
    "fst (?rv s) = Inl e
     \<and> calls_made ?rv s \<in>
          {[Call_Session,
            Call_get_model_specs NEMOTRON_MODEL_ID (boto_region_name session)],
           [Call_Session,
            Call_get_model_specs NEMOTRON_MODEL_ID (boto_region_name session),
            Call_get_model_specs EMBED_MODEL_ID (boto_region_name session)]}"
  proof
    assume "get_model_specs sv NEMOTRON_MODEL_ID (boto_region_name session) w1 = (Inl e, w2)"
    with sess show ?thesis
      by (simp add: resolve_versions_def resolve_model_version_def Let_def run calls_made_def)
  next
    assume "\<exists>lv. get_model_specs sv NEMOTRON_MODEL_ID (boto_region_name session) w1
                   = (Inr lv, w2)
               \<and> get_model_specs sv EMBED_MODEL_ID (boto_region_name session) w2
                   = (Inl e, w3)"
    then obtain lv where
      "get_model_specs sv NEMOTRON_MODEL_ID (boto_region_name session) w1 = (Inr lv, w2)"
      "get_model_specs sv EMBED_MODEL_ID (boto_region_name session) w2 = (Inl e, w3)"
      by blast
    with sess show ?thesis
      by (simp add: resolve_versions_def resolve_model_version_def Let_def run calls_made_def)
  qed
  then have m: "main sv proc s = (Inl e, snd (?rv s))"
    by (simp add: main_raises)
  have cm: "calls_made (main sv proc) s = calls_made ?rv s"
    by (simp add: calls_made_def m)
  have "files (snd (main sv proc s)) = files s"
    unfolding m snd_conv by (rule keeps_filesD [OF keeps_resolve_versions])
  moreover have "list_all (\<lambda>c. \<not> is_deployment_call c) (calls_made (main sv proc) s)"
    unfolding cm by (rule emits_calls_made, rule emits_resolve_versions) simp_all
  moreover have "fst (run_script sv proc s) = exit_status (Inl e)"
    by (simp add: run_script_def m)
  ultimately show ?thesis using rv m cm by simp
qed

theorem version_fault_aborts_run_witness:
  "fst (main (stub_services (raise_at_get_model_specs EMBED_MODEL_ID
                (ClientError (ascii ''no such model''))))
          stub_process (fresh Map.empty))
     = Inl (ClientError (ascii ''no such model''))
   \<and> fst (run_script (stub_services (raise_at_get_model_specs EMBED_MODEL_ID
                (ClientError (ascii ''no such model''))))
          stub_process (fresh Map.empty)) = 1
   \<and> list_all (\<lambda>c. \<not> is_deployment_call c)
        (calls_made (main (stub_services (raise_at_get_model_specs EMBED_MODEL_ID
                             (ClientError (ascii ''no such model''))))
                       stub_process)
           (fresh Map.empty))
   \<and> files (snd (main (stub_services (raise_at_get_model_specs EMBED_MODEL_ID
                          (ClientError (ascii ''no such model''))))
                    stub_process (fresh Map.empty))) = Map.empty"
proof -
  let ?e = "ClientError (ascii ''no such model'')"
  let ?sv = "stub_services (raise_at_get_model_specs EMBED_MODEL_ID ?e)"
  let ?sess = "\<lparr>boto_region_name = ascii ''us-east-1''\<rparr>"
  have sess: "Session_init ?sv (world (fresh Map.empty)) = (Inr ?sess, ())"
    by (simp add: stub)
  have fault:
    "get_model_specs ?sv NEMOTRON_MODEL_ID (boto_region_name ?sess) () = (Inl ?e, ())
     \<or> (\<exists>lv. get_model_specs ?sv NEMOTRON_MODEL_ID (boto_region_name ?sess) () = (Inr lv, ())
             \<and> get_model_specs ?sv EMBED_MODEL_ID (boto_region_name ?sess) () = (Inl ?e, ()))"
    by (simp add: stub model_ids_differ)
  from version_fault_aborts_run [OF sess fault, of stub_process]
  show ?thesis by (simp add: exit_status_def fresh_def)
qed

text \<open>
  C3, as the specification states it: when no deployment succeeds, no summary file is
  written and the run ends with a non-zero process outcome. The first half holds and the
  second does not. With endpoint creation refused for both models, both deployments return
  \<open>None\<close>, the result list is empty, no file is written, and \<open>main\<close> returns normally from
  source line 168: the exit status of the script is 0.
\<close>

theorem no_success_exit_status_counterexample:
  "fst (deploy_each (stub_services (raise_at_deploy (ClientError (ascii ''quota''))))
          (os_environ stub_process) \<lparr>boto_region_name = ascii ''us-east-1''\<rparr>
          (ascii ''1.0.0'') (ascii ''1.0.0'')
          (snd (resolve_versions (stub_services (raise_at_deploy (ClientError (ascii ''quota''))))
                  (os_environ stub_process) (fresh Map.empty)))) = Inr []
   \<and> files (snd (run_script (stub_services (raise_at_deploy (ClientError (ascii ''quota''))))
                    stub_process (fresh Map.empty))) = Map.empty
   \<and> fst (run_script (stub_services (raise_at_deploy (ClientError (ascii ''quota''))))
            stub_process (fresh Map.empty)) = 0"
proof -
  let ?sv = "stub_services (raise_at_deploy (ClientError (ascii ''quota'')))"
  let ?env = "os_environ stub_process"
  let ?sess = "\<lparr>boto_region_name = ascii ''us-east-1''\<rparr>"
  let ?s1 = "snd (resolve_versions ?sv ?env (fresh Map.empty))"
  let ?s3 = "snd (deploy_each ?sv ?env ?sess (ascii ''1.0.0'') (ascii ''1.0.0'') ?s1)"
  have rv: "fst (resolve_versions ?sv ?env (fresh Map.empty))
            = Inr (?sess, ascii ''1.0.0'', ascii ''1.0.0'')"
    by (rule stub_resolve_versions) simp_all
  have r1: "fst (deploy_llm ?sv ?env ?sess (ascii ''1.0.0'') ?s1) = Inr None"
    by (rule stub_deploy_model_deploy_fault) simp
  have r2: "fst (deploy_embed ?sv ?env ?sess (ascii ''1.0.0'')
              (snd (deploy_llm ?sv ?env ?sess (ascii ''1.0.0'') ?s1))) = Inr None"
    by (rule stub_deploy_model_deploy_fault) simp
  have each: "fst (deploy_each ?sv ?env ?sess (ascii ''1.0.0'') (ascii ''1.0.0'') ?s1) = Inr []"
    by (simp add: deploy_each_run [OF r1 r2])
  have m: "main ?sv stub_process (fresh Map.empty) = summarize ?sv stub_process [] ?s3"
    by (rule main_summarizes [OF rv each])
  have "files ?s3 = files ?s1" by (rule keeps_filesD [OF keeps_deploy_each])
  also have "\<dots> = files (fresh Map.empty)" by (rule keeps_filesD [OF keeps_resolve_versions])
  finally have f: "files ?s3 = Map.empty" by (simp add: fresh_def)
  from each f show ?thesis
    by (simp add: run_script_def m summarize_empty exit_status_def)
qed

text \<open>
  C3, amended. When the version lookups return and the result list of the two deployments
  is empty, no summary file is written: every file is as it was and the run opens none. The
  run reports the failure on the output, its last line being the message of source line
  167, and \<open>main\<close> returns normally, so the exit status of the script is 0.
\<close>

theorem no_success_reports_failure:
  assumes rv: "fst (resolve_versions sv (os_environ proc) s) = Inr (session, lv, ev)"
    and none: "fst (deploy_each sv (os_environ proc) session lv ev
                 (snd (resolve_versions sv (os_environ proc) s))) = Inr []"
  shows "files (snd (main sv proc s)) = files s
         \<and> list_all (\<lambda>c. \<not> is_open_call c) (calls_made (main sv proc) s)
         \<and> last (stdout (snd (main sv proc s))) =
             newline @ glyph_cross @ ascii '' Deployment failed. Check the errors above.''
         \<and> fst (main sv proc s) = Inr ()
         \<and> fst (run_script sv proc s) = 0"
proof -
  let ?env = "os_environ proc"
  let ?s1 = "snd (resolve_versions sv ?env s)"
  let ?s3 = "snd (deploy_each sv ?env session lv ev ?s1)"
  have m: "main sv proc s = summarize sv proc [] ?s3"
    by (rule main_summarizes [OF rv none])
  have "files ?s3 = files ?s1" by (rule keeps_filesD [OF keeps_deploy_each])
  also have "\<dots> = files s" by (rule keeps_filesD [OF keeps_resolve_versions])
  finally have f: "files ?s3 = files s" .
  have e1: "emits (\<lambda>c. \<not> is_open_call c) (resolve_versions sv ?env)"
    by (rule emits_resolve_versions) simp_all
  from emits_calls [OF e1, of s]
  have c1: "calls ?s1 = calls s @ calls_made (resolve_versions sv ?env) s" .
  have l1: "list_all (\<lambda>c. \<not> is_open_call c) (calls_made (resolve_versions sv ?env) s)"
    by (rule emits_calls_made [OF e1])
  have e2: "emits (\<lambda>c. \<not> is_open_call c) (deploy_each sv ?env session lv ev)"
    by (rule emits_deploy_each; rule emits_weaken [OF emits_deploy_model]) simp_all
  from emits_calls [OF e2, of ?s1]
  have c2: "calls ?s3 = calls ?s1 @ calls_made (deploy_each sv ?env session lv ev) ?s1" .
  have l2: "list_all (\<lambda>c. \<not> is_open_call c) (calls_made (deploy_each sv ?env session lv ev) ?s1)"
    by (rule emits_calls_made [OF e2])
  have cm: "calls_made (main sv proc) s =
              calls_made (resolve_versions sv ?env) s
              @ calls_made (deploy_each sv ?env session lv ev) ?s1"
    by (simp add: calls_made_def [of "main sv proc"] m summarize_empty c2 c1)
  from f l1 l2 show ?thesis
    by (simp add: cm) (simp add: m summarize_empty run_script_def exit_status_def)
qed

theorem no_success_reports_failure_witness:
  "fst (deploy_each (stub_services (raise_at_model_uri NEMOTRON_MODEL_ID
                        (OtherException (ascii ''timeout''))))
          (os_environ stub_process) \<lparr>boto_region_name = ascii ''us-east-1''\<rparr>
          (ascii ''1.0.0'') (ascii ''1.0.0'')
          (snd (resolve_versions (stub_services (raise_at_model_uri NEMOTRON_MODEL_ID
                                    (OtherException (ascii ''timeout''))))
                  (os_environ stub_process)
                  (fresh [ascii ''notes.txt'' \<mapsto> RawText (ascii ''x'')])))) \<noteq> Inr []
   \<and> fst (deploy_each (stub_services (raise_at_delete_model (OtherException (ascii ''timeout''))))
          (os_environ stub_process) \<lparr>boto_region_name = ascii ''us-east-1''\<rparr>
          (ascii ''1.0.0'') (ascii ''1.0.0'')
          (snd (resolve_versions (stub_services (raise_at_delete_model
                                    (OtherException (ascii ''timeout''))))
                  (os_environ stub_process)
                  (fresh [ascii ''notes.txt'' \<mapsto> RawText (ascii ''x'')])))) = Inr []
   \<and> files (snd (main (stub_services (raise_at_delete_model (OtherException (ascii ''timeout''))))
                    stub_process (fresh [ascii ''notes.txt'' \<mapsto> RawText (ascii ''x'')])))
       = [ascii ''notes.txt'' \<mapsto> RawText (ascii ''x'')]
   \<and> fst (run_script (stub_services (raise_at_delete_model (OtherException (ascii ''timeout''))))
            stub_process (fresh [ascii ''notes.txt'' \<mapsto> RawText (ascii ''x'')])) = 0"
proof -
  let ?e = "OtherException (ascii ''timeout'')"
  let ?sv = "stub_services (raise_at_delete_model ?e)"
  let ?sv' = "stub_services (raise_at_model_uri NEMOTRON_MODEL_ID ?e)"
  let ?env = "os_environ stub_process"
  let ?sess = "\<lparr>boto_region_name = ascii ''us-east-1''\<rparr>"
  let ?s = "fresh [ascii ''notes.txt'' \<mapsto> RawText (ascii ''x'')]"
  let ?s1 = "snd (resolve_versions ?sv ?env ?s)"
  let ?t1 = "snd (resolve_versions ?sv' ?env ?s)"
  have rv: "fst (resolve_versions ?sv ?env ?s) = Inr (?sess, ascii ''1.0.0'', ascii ''1.0.0'')"
    by (rule stub_resolve_versions) simp_all
  have r1: "fst (deploy_llm ?sv ?env ?sess (ascii ''1.0.0'') ?s1) = Inr None"
    by (rule stub_deploy_model_cleanup_fault) simp
  have r2: "fst (deploy_embed ?sv ?env ?sess (ascii ''1.0.0'')
              (snd (deploy_llm ?sv ?env ?sess (ascii ''1.0.0'') ?s1))) = Inr None"
    by (rule stub_deploy_model_cleanup_fault) simp
  have none: "fst (deploy_each ?sv ?env ?sess (ascii ''1.0.0'') (ascii ''1.0.0'') ?s1) = Inr []"
    by (simp add: deploy_each_run [OF r1 r2])
  have q1: "fst (deploy_llm ?sv' ?env ?sess (ascii ''1.0.0'') ?t1) = Inr None"
    by (simp add: stub_deploy_model_uri_fault)
  have q2: "fst (deploy_embed ?sv' ?env ?sess (ascii ''1.0.0'')
              (snd (deploy_llm ?sv' ?env ?sess (ascii ''1.0.0'') ?t1)))
            = Inr (Some \<lparr>model_id = EMBED_MODEL_ID, model_version = ascii ''1.0.0'',
                     endpoint_name = make_endpoint_name (ascii ''mindbridge-embed'')
                                       EMBED_MODEL_ID (ascii ''1.0.0''),
                     instance_type = EMBED_INSTANCE ?env, region = ascii ''us-east-1''\<rparr>)"
    using model_ids_differ by (simp add: stub_deploy_model_uri_fault)
  have some: "fst (deploy_each ?sv' ?env ?sess (ascii ''1.0.0'') (ascii ''1.0.0'') ?t1) \<noteq> Inr []"
    by (simp add: deploy_each_run [OF q1 q2])
  from no_success_reports_failure [OF rv none] some none show ?thesis
    by (simp add: fresh_def)
qed



text \<open>
  C9. The execution role and the two instance types come from the environment of the
  process. In every run of \<open>main\<close>, every call that hands a role to the platform (the
  construction of a model and the creation of its endpoint) hands it the value of
  \<open>SAGEMAKER_EXECUTION_ROLE\<close> when that variable is set, and the constant
  \<open>arn:aws:iam::112571254920:role/voclabs\<close> of the source when it is unset. Every
  endpoint-creation call for the reasoning model (its endpoint name starts with
  \<open>mindbridge-llm-\<close>) asks for the instance type in \<open>NIM_LLM_INSTANCE_TYPE\<close>, or
  \<open>ml.g5.2xlarge\<close> when unset, and every one for the embedding model (its name starts with
  \<open>mindbridge-embed-\<close>) for the one in \<open>NIM_EMBED_INSTANCE_TYPE\<close>, or \<open>ml.g5.xlarge\<close> when
  unset; there is no other endpoint-creation call.
\<close>

theorem environment_overrides:
  "list_all (\<lambda>c. role_of_call c \<in>
               {None,
                Some (case os_environ proc (ascii ''SAGEMAKER_EXECUTION_ROLE'') of
                        Some v \<Rightarrow> v
                      | None \<Rightarrow> ascii ''arn:aws:iam::112571254920:role/voclabs'')})
     (calls_made (main (sv :: ('w, 'p) services) proc) s)
   \<and> list_all (\<lambda>c. case c of
                 Call_deploy mdl n it nm wt \<Rightarrow>
                   take 15 nm = ascii ''mindbridge-llm-''
                   \<and> it = (case os_environ proc (ascii ''NIM_LLM_INSTANCE_TYPE'') of
                             Some v \<Rightarrow> v | None \<Rightarrow> ascii ''ml.g5.2xlarge'')
                   \<or> take 17 nm = ascii ''mindbridge-embed-''
                   \<and> it = (case os_environ proc (ascii ''NIM_EMBED_INSTANCE_TYPE'') of
                             Some v \<Rightarrow> v | None \<Rightarrow> ascii ''ml.g5.xlarge'')
               | _ \<Rightarrow> True)
       (calls_made (main sv proc) s)"
proof -
  let ?env = "os_environ proc"
  let ?R = "\<lambda>c::'p call. role_of_call c \<in> {None, Some (EXECUTION_ROLE ?env)}"
  let ?T = "\<lambda>c::'p call. case c of
                 Call_deploy mdl n it nm wt \<Rightarrow>
                   take 15 nm = ascii ''mindbridge-llm-'' \<and> it = LLM_INSTANCE ?env
                   \<or> take 17 nm = ascii ''mindbridge-embed-'' \<and> it = EMBED_INSTANCE ?env
               | _ \<Rightarrow> True"
  have role: "emits ?R (main sv proc)"
  proof (rule emits_main)
    show "emits ?R (deploy_llm sv ?env session lv)" for session lv
      by (rule emits_weaken [OF emits_deploy_model]) (simp, metis not_Some_eq)
    show "emits ?R (deploy_embed sv ?env session ev)" for session ev
      by (rule emits_weaken [OF emits_deploy_model]) (simp, metis not_Some_eq)
  qed simp_all
  have type: "emits ?T (main sv proc)"
  proof (rule emits_main)
    show "emits ?T (deploy_llm sv ?env session lv)" for session lv
    proof (rule emits_weaken [OF emits_deploy_model])
      fix c :: "'p call"
      assume "is_deployment_call c \<and> \<not> is_open_call c
               \<and> (\<forall>r. role_of_call c = Some r \<longrightarrow> r = EXECUTION_ROLE ?env)
               \<and> (\<forall>t. instance_type_of_call c = Some t \<longrightarrow> t = LLM_INSTANCE ?env)
               \<and> (\<forall>n. endpoint_name_of_call c = Some n \<longrightarrow>
                      n = make_endpoint_name (ascii ''mindbridge-llm'') NEMOTRON_MODEL_ID lv)"
      then show "?T c"
        by (cases c) (simp_all add: llm_name_prefix)
    qed
    show "emits ?T (deploy_embed sv ?env session ev)" for session ev
    proof (rule emits_weaken [OF emits_deploy_model])
      fix c :: "'p call"
      assume "is_deployment_call c \<and> \<not> is_open_call c
               \<and> (\<forall>r. role_of_call c = Some r \<longrightarrow> r = EXECUTION_ROLE ?env)
               \<and> (\<forall>t. instance_type_of_call c = Some t \<longrightarrow> t = EMBED_INSTANCE ?env)
               \<and> (\<forall>n. endpoint_name_of_call c = Some n \<longrightarrow>
                      n = make_endpoint_name (ascii ''mindbridge-embed'') EMBED_MODEL_ID ev)"
      then show "?T c"
        by (cases c) (simp_all add: embed_name_prefix)
    qed
  qed simp_all
  from emits_calls_made [OF role, of s] emits_calls_made [OF type, of s]
  show ?thesis
    by (simp only: EXECUTION_ROLE_def LLM_INSTANCE_def EMBED_INSTANCE_def os_getenv_def
          DEFAULT_EXECUTION_ROLE_def simp_thms)
qed

theorem environment_overrides_witness:
  "list_all (\<lambda>c. role_of_call c \<in> {None, Some (ascii ''arn:aws:iam::1:role/custom'')})
     (calls_made (main (stub_services no_fault)
                    \<lparr>os_environ = [ascii ''SAGEMAKER_EXECUTION_ROLE''
                                     \<mapsto> ascii ''arn:aws:iam::1:role/custom'',
                                   ascii ''NIM_LLM_INSTANCE_TYPE'' \<mapsto> ascii ''ml.p4d.24xlarge''],
                       os_getcwd = ascii ''/tmp''\<rparr>)
        (fresh Map.empty))
   \<and> Call_deploy
         \<lparr>image_uri = ascii ''registry/'' @ NEMOTRON_MODEL_ID,
            model_data = ascii ''s3://models/'' @ NEMOTRON_MODEL_ID,
            role = ascii ''arn:aws:iam::1:role/custom'',
            sagemaker_session = \<lparr>boto_region_name = ascii ''us-east-1''\<rparr>\<rparr>
         1 (ascii ''ml.p4d.24xlarge'')
         (make_endpoint_name (ascii ''mindbridge-llm'') NEMOTRON_MODEL_ID (ascii ''1.0.0''))
         True
       \<in> set (calls_made (main (stub_services no_fault)
                    \<lparr>os_environ = [ascii ''SAGEMAKER_EXECUTION_ROLE''
                                     \<mapsto> ascii ''arn:aws:iam::1:role/custom'',
                                   ascii ''NIM_LLM_INSTANCE_TYPE'' \<mapsto> ascii ''ml.p4d.24xlarge''],
                       os_getcwd = ascii ''/tmp''\<rparr>)
                (fresh Map.empty))
   \<and> list_all (\<lambda>c. role_of_call c \<in> {None, Some DEFAULT_EXECUTION_ROLE})
       (calls_made (main (stub_services no_fault) stub_process) (fresh Map.empty))"
proof (intro conjI)
  let ?sv = "stub_services no_fault"
  let ?proc = "\<lparr>os_environ = [ascii ''SAGEMAKER_EXECUTION_ROLE''
                                   \<mapsto> ascii ''arn:aws:iam::1:role/custom'',
                                 ascii ''NIM_LLM_INSTANCE_TYPE'' \<mapsto> ascii ''ml.p4d.24xlarge''],
                 os_getcwd = ascii ''/tmp''\<rparr>"
  let ?env = "os_environ ?proc"
  let ?sess = "\<lparr>boto_region_name = ascii ''us-east-1''\<rparr>"
  let ?s1 = "snd (resolve_versions ?sv ?env (fresh Map.empty))"
  have keys: "ascii ''NIM_LLM_INSTANCE_TYPE'' \<noteq> ascii ''SAGEMAKER_EXECUTION_ROLE''"
    by (simp add: ascii_def)
  show "list_all (\<lambda>c. role_of_call c \<in> {None, Some (ascii ''arn:aws:iam::1:role/custom'')})
          (calls_made (main ?sv ?proc) (fresh Map.empty))"
    using conjunct1 [OF environment_overrides [of ?proc ?sv "fresh Map.empty"]] keys
    by simp
  have rv: "fst (resolve_versions ?sv ?env (fresh Map.empty))
            = Inr (?sess, ascii ''1.0.0'', ascii ''1.0.0'')"
    by (rule stub_resolve_versions) (simp_all add: no_fault_def)
  have r1: "fst (deploy_llm ?sv ?env ?sess (ascii ''1.0.0'') ?s1)
            = Inr (Some \<lparr>model_id = NEMOTRON_MODEL_ID, model_version = ascii ''1.0.0'',
                     endpoint_name = make_endpoint_name (ascii ''mindbridge-llm'')
                                       NEMOTRON_MODEL_ID (ascii ''1.0.0''),
                     instance_type = LLM_INSTANCE ?env, region = boto_region_name ?sess\<rparr>)"
    by (rule stub_deploy_model_ok)
  have r2: "fst (deploy_embed ?sv ?env ?sess (ascii ''1.0.0'')
                   (snd (deploy_llm ?sv ?env ?sess (ascii ''1.0.0'') ?s1)))
            = Inr (Some \<lparr>model_id = EMBED_MODEL_ID, model_version = ascii ''1.0.0'',
                     endpoint_name = make_endpoint_name (ascii ''mindbridge-embed'')
                                       EMBED_MODEL_ID (ascii ''1.0.0''),
                     instance_type = EMBED_INSTANCE ?env, region = boto_region_name ?sess\<rparr>)"
    by (rule stub_deploy_model_ok)
  have env: "EXECUTION_ROLE ?env = ascii ''arn:aws:iam::1:role/custom''"
            "LLM_INSTANCE ?env = ascii ''ml.p4d.24xlarge''"
    using keys by (simp_all add: EXECUTION_ROLE_def LLM_INSTANCE_def os_getenv_def)
  show "Call_deploy
         \<lparr>image_uri = ascii ''registry/'' @ NEMOTRON_MODEL_ID,
            model_data = ascii ''s3://models/'' @ NEMOTRON_MODEL_ID,
            role = ascii ''arn:aws:iam::1:role/custom'',
            sagemaker_session = \<lparr>boto_region_name = ascii ''us-east-1''\<rparr>\<rparr>
         1 (ascii ''ml.p4d.24xlarge'')
         (make_endpoint_name (ascii ''mindbridge-llm'') NEMOTRON_MODEL_ID (ascii ''1.0.0''))
         True
       \<in> set (calls_made (main ?sv ?proc) (fresh Map.empty))"
    unfolding main_calls [OF rv r1 r2] stub_deploy_model_calls env by simp
  show "list_all (\<lambda>c. role_of_call c \<in> {None, Some DEFAULT_EXECUTION_ROLE})
     (calls_made (main (stub_services no_fault) stub_process) (fresh Map.empty))"
    using conjunct1 [OF environment_overrides
      [of stub_process "stub_services no_fault" "fresh Map.empty"]]
    by (simp add: stub_process_def DEFAULT_EXECUTION_ROLE_def)
qed

end
